theory Spec2Isabelle
  imports Main
begin

section \<open>Python values\<close>

text \<open>
  The server of \<^verbatim>\<open>sse-server.py\<close> works on the values \<^verbatim>\<open>json.loads\<close> produces:
  \<^verbatim>\<open>None\<close>, booleans, integers, floats, strings, lists and dictionaries with string keys.
  A dictionary is an association list in insertion order with distinct keys, read with
  \<open>map_of\<close>. A float is \<open>JFloat m e\<close> (the finite value \<open>m * 2 ^ e\<close>); the server only
  ever passes floats on. A Python string is the list of the bytes of its UTF-8 encoding
  (a lone surrogate as its three bytes), so ASCII text is the list of its characters,
  and joining, equality and the search for an ASCII piece are those of the Python
  strings.
\<close>

datatype json =
    JNull
  | JBool bool
  | JInt int
  | JFloat int int
  | JStr string
  | JArr "json list"
  | JObj "(string \<times> json) list"

type_synonym dict = "(string \<times> json) list"

text \<open>\<^verbatim>\<open>d.get(k)\<close> and \<^verbatim>\<open>d.get(k, default)\<close>.\<close>

definition dict_get :: "dict \<Rightarrow> string \<Rightarrow> json" where
  "dict_get d k = (case map_of d k of None \<Rightarrow> JNull | Some v \<Rightarrow> v)"

definition dict_get_default :: "dict \<Rightarrow> string \<Rightarrow> json \<Rightarrow> json" where
  "dict_get_default d k dflt = (case map_of d k of None \<Rightarrow> dflt | Some v \<Rightarrow> v)"

text \<open>
  \<^verbatim>\<open>d[k] = v\<close> on a fresh copy of \<open>d\<close> (also \<^verbatim>\<open>{**d, k: v}\<close>): an existing key keeps
  its place and gets the new value, a new key goes to the end.
\<close>

fun dict_set :: "dict \<Rightarrow> string \<Rightarrow> json \<Rightarrow> dict" where
  "dict_set [] k v = [(k, v)]"
| "dict_set ((k', v') # d) k v =
     (if k' = k then (k, v) # d else (k', v') # dict_set d k v)"

text \<open>\<^verbatim>\<open>type(v).__name__\<close>, as the interpreter's error messages print it.\<close>

fun type_name :: "json \<Rightarrow> string" where
  "type_name JNull = ''NoneType''"
| "type_name (JBool _) = ''bool''"
| "type_name (JInt _) = ''int''"
| "type_name (JFloat _ _) = ''float''"
| "type_name (JStr _) = ''str''"
| "type_name (JArr _) = ''list''"
| "type_name (JObj _) = ''dict''"

text \<open>
  \<^verbatim>\<open>str.lower()\<close> is the interpreter's, with the lowercase mappings of all of Unicode.
  Every function that reaches it takes it as the parameter \<open>lower\<close>, a function on
  strings. \<open>ascii_lower\<close> is what it does on ASCII text, where the letters A to Z move
  to a to z and nothing else changes; it stands for \<open>lower\<close> where a call is run on ASCII
  text.
\<close>

definition ascii_lower_char :: "char \<Rightarrow> char" where
  "ascii_lower_char c =
     (case map_of (zip ''ABCDEFGHIJKLMNOPQRSTUVWXYZ'' ''abcdefghijklmnopqrstuvwxyz'') c of
        Some l \<Rightarrow> l
      | None \<Rightarrow> c)"

definition ascii_lower :: "string \<Rightarrow> string" where
  "ascii_lower s = map ascii_lower_char s"

text \<open>\<^verbatim>\<open>sep.join(xs)\<close>.\<close>

fun join :: "string \<Rightarrow> string list \<Rightarrow> string" where
  "join sep [] = []"
| "join sep [x] = x"
| "join sep (x # y # ys) = x @ sep @ join sep (y # ys)"

text \<open>\<open>s\<close> between single quotes.\<close>

definition quoted :: "string \<Rightarrow> string" where
  "quoted s = CHR 0x27 # s @ [CHR 0x27]"

text \<open>\<^verbatim>\<open>k in s\<close> for two strings: \<open>k\<close> occurs in \<open>s\<close> as a contiguous piece.\<close>

fun is_substring :: "string \<Rightarrow> string \<Rightarrow> bool" where
  "is_substring k [] = (k = [])"
| "is_substring k (c # cs) = (take (length k) (c # cs) = k \<or> is_substring k cs)"

subsection \<open>Message texts and exceptions\<close>

text \<open>
  The text of an error message. \<open>Message s\<close> is the Python string \<open>s\<close>.
  \<open>Message_str p v\<close> is \<open>p\<close> followed by \<^verbatim>\<open>str(v)\<close> for a number, list or dictionary
  \<open>v\<close>, whose rendering is left to the interpreter. \<open>Message_interpreter p\<close> is \<open>p\<close>
  followed by the text the interpreter gives an exception it raises itself, where that
  text differs between Python releases.
\<close>

datatype message =
    Message string
  | Message_str string json
  | Message_interpreter string

text \<open>The f-string \<^verbatim>\<open>f"<p>{m}"\<close> for a text \<open>m\<close>.\<close>

fun prepend :: "string \<Rightarrow> message \<Rightarrow> message" where
  "prepend p (Message s) = Message (p @ s)"
| "prepend p (Message_str q v) = Message_str (p @ q) v"
| "prepend p (Message_interpreter q) = Message_interpreter (p @ q)"

text \<open>The f-string \<^verbatim>\<open>f"<p>{v}"\<close> for a value \<open>v\<close>.\<close>

fun fmt :: "string \<Rightarrow> json \<Rightarrow> message" where
  "fmt p (JStr s) = Message (p @ s)"
| "fmt p JNull = Message (p @ ''None'')"
| "fmt p (JBool b) = Message (p @ (if b then ''True'' else ''False''))"
| "fmt p v = Message_str p v"

datatype exc =
    ValueError message
  | AttributeError message
  | TypeError message
  | KeyError message
  | UnicodeDecodeError message
  | RecursionError message

text \<open>\<^verbatim>\<open>str(e)\<close>.\<close>

fun exc_str :: "exc \<Rightarrow> message" where
  "exc_str (ValueError m) = m"
| "exc_str (AttributeError m) = m"
| "exc_str (TypeError m) = m"
| "exc_str (KeyError m) = m"
| "exc_str (UnicodeDecodeError m) = m"
| "exc_str (RecursionError m) = m"

text \<open>The \<^verbatim>\<open>AttributeError\<close> of \<^verbatim>\<open>v.a\<close> for a value without attribute \<open>a\<close>.\<close>

definition no_attribute :: "json \<Rightarrow> string \<Rightarrow> exc" where
  "no_attribute v a =
     AttributeError (Message (quoted (type_name v) @ '' object has no attribute '' @ quoted a))"

text \<open>
  \<^verbatim>\<open>k in v\<close>, \<^verbatim>\<open>v[k]\<close> and \<^verbatim>\<open>v.lower()\<close> for a string \<open>k\<close> and any value \<open>v\<close>:
  Python decides by the type of \<open>v\<close> at run time and raises where the operation does
  not apply.
\<close>

fun contains :: "json \<Rightarrow> string \<Rightarrow> exc + bool" where
  "contains (JObj d) k = Inr (map_of d k \<noteq> None)"
| "contains (JArr xs) k = Inr (JStr k \<in> set xs)"
| "contains (JStr s) k = Inr (is_substring k s)"
| "contains v k = Inl (TypeError (Message_interpreter []))"

fun subscript :: "json \<Rightarrow> string \<Rightarrow> exc + json" where
  "subscript (JObj d) k =
     (case map_of d k of Some v \<Rightarrow> Inr v | None \<Rightarrow> Inl (KeyError (Message (quoted k))))"
| "subscript v k = Inl (TypeError (Message_interpreter []))"

fun str_lower :: "(string \<Rightarrow> string) \<Rightarrow> json \<Rightarrow> exc + string" where
  "str_lower lower (JStr s) = Inr (lower s)"
| "str_lower lower v = Inl (no_attribute v ''lower'')"

section \<open>The task data and the tool catalog\<close>

text \<open>\<^verbatim>\<open>SAMPLE_TASKS\<close> (lines 37 to 60): the categories in the order of the literal.\<close>

definition task :: "int \<Rightarrow> string \<Rightarrow> string \<Rightarrow> string \<Rightarrow> string \<Rightarrow> dict" where
  "task i title status priority due_date =
     [(''id'', JInt i), (''title'', JStr title), (''status'', JStr status),
      (''priority'', JStr priority), (''due_date'', JStr due_date)]"

definition SAMPLE_TASKS :: "(string \<times> dict list) list" where
  "SAMPLE_TASKS =
    [(''work'',
       [task 1 ''Complete project proposal'' ''pending'' ''high'' ''2024-01-15'',
        task 2 ''Review code changes'' ''in_progress'' ''medium'' ''2024-01-12'',
        task 3 ''Team meeting preparation'' ''completed'' ''low'' ''2024-01-10'',
        task 4 ''Update documentation'' ''pending'' ''medium'' ''2024-01-20'']),
     (''personal'',
       [task 5 ''Grocery shopping'' ''pending'' ''medium'' ''2024-01-13'',
        task 6 ''Doctor appointment'' ''completed'' ''high'' ''2024-01-08'',
        task 7 ''Call family'' ''pending'' ''low'' ''2024-01-14'',
        task 8 ''Exercise routine'' ''in_progress'' ''medium'' ''2024-01-11'']),
     (''learning'',
       [task 9 ''Read Python book chapter 5'' ''in_progress'' ''medium'' ''2024-01-16'',
        task 10 ''Complete online course module'' ''pending'' ''high'' ''2024-01-18'',
        task 11 ''Practice coding exercises'' ''completed'' ''low'' ''2024-01-09'']),
     (''home'',
       [task 12 ''Fix leaky faucet'' ''pending'' ''high'' ''2024-01-17'',
        task 13 ''Organize garage'' ''pending'' ''low'' ''2024-01-25'',
        task 14 ''Plant new flowers'' ''completed'' ''medium'' ''2024-01-05''])]"

text \<open>
  A \<^verbatim>\<open>Tool\<close> of the \<^verbatim>\<open>mcp\<close> library with the three fields the server sets.
  \<^verbatim>\<open>tool.model_dump()\<close> gives a dictionary of these fields and of whatever further
  fields the installed library's class declares (each at its default); those are the
  parameter \<open>extra\<close>.
\<close>

datatype Tool = Tool (tool_name: string) (tool_description: string) (tool_inputSchema: json)

definition model_dump :: "dict \<Rightarrow> Tool \<Rightarrow> json" where
  "model_dump extra t =
     JObj ([(''name'', JStr (tool_name t)), (''description'', JStr (tool_description t)),
            (''inputSchema'', tool_inputSchema t)] @ extra)"

text \<open>\<^verbatim>\<open>handle_list_tools\<close> (lines 65 to 93).\<close>

definition handle_list_tools :: "Tool list" where
  "handle_list_tools =
     [Tool ''get_tasklist'' ''Get a list of tasks filtered by category''
        (JObj [(''type'', JStr ''object''),
               (''properties'',
                  JObj [(''category'',
                     JObj [(''type'', JStr ''string''),
                           (''description'', JStr ''The category to filter tasks by''),
                           (''enum'', JArr [JStr ''work'', JStr ''personal'', JStr ''learning'',
                                            JStr ''home'', JStr ''all''])])]),
               (''required'', JArr [JStr ''category''])]),
      Tool ''test_slack'' ''Test Slack integration''
        (JObj [(''type'', JStr ''object''), (''properties'', JObj []), (''required'', JArr [])])]"

section \<open>Tool calls\<close>

text \<open>
  A \<^verbatim>\<open>TextContent\<close> block. Its text is either a plain string or
  \<^verbatim>\<open>json.dumps(v, indent=2)\<close>, kept as the value \<open>v\<close> it serialises.
\<close>

datatype text_payload = Plain string | Json_dumps json

datatype TextContent = TextContent (content_type: string) (content_text: text_payload)

text \<open>
  The loops of lines 116 to 121: every task of every category is copied, the copy gets
  the key \<^verbatim>\<open>category\<close>, and is appended to \<^verbatim>\<open>all_tasks\<close>.
\<close>

fun copy_tasks :: "string \<Rightarrow> dict list \<Rightarrow> dict list \<Rightarrow> dict list" where
  "copy_tasks cat [] all_tasks = all_tasks"
| "copy_tasks cat (t # tasks) all_tasks =
     copy_tasks cat tasks (all_tasks @ [dict_set t ''category'' (JStr cat)])"

fun copy_categories :: "(string \<times> dict list) list \<Rightarrow> dict list \<Rightarrow> dict list" where
  "copy_categories [] all_tasks = all_tasks"
| "copy_categories ((cat, tasks) # items) all_tasks =
     copy_categories items (copy_tasks cat tasks all_tasks)"

text \<open>\<^verbatim>\<open>response_data\<close> (lines 135 to 140); \<open>now\<close> is \<^verbatim>\<open>datetime.now().isoformat()\<close>.\<close>

definition response_data :: "string \<Rightarrow> string \<Rightarrow> dict list \<Rightarrow> json" where
  "response_data now category result_tasks =
     JObj [(''category'', JStr category),
           (''total_tasks'', JInt (int (length result_tasks))),
           (''tasks'', JArr (map JObj result_tasks)),
           (''timestamp'', JStr now)]"

text \<open>The body of the \<^verbatim>\<open>try\<close> block (lines 114 to 147).\<close>

definition tasklist_try :: "string \<Rightarrow> string \<Rightarrow> exc + TextContent list" where
  "tasklist_try now category =
     (if category = ''all'' then
        Inr [TextContent ''text''
               (Json_dumps (response_data now category (copy_categories SAMPLE_TASKS [])))]
      else
        (case map_of SAMPLE_TASKS category of
           Some tasks \<Rightarrow>
             Inr [TextContent ''text''
                    (Json_dumps (response_data now category
                       (map (\<lambda>t. dict_set t ''category'' (JStr category)) tasks)))]
         | None \<Rightarrow>
             Inl (ValueError (Message
               (''Invalid category '' @ quoted category @ ''. Available categories: '' @
                join '', '' (map fst SAMPLE_TASKS @ [''all'']))))))"

text \<open>
  \<^verbatim>\<open>handle_call_tool\<close> (lines 95 to 153). \<open>Inl e\<close>: the call raises \<open>e\<close>. The
  \<^verbatim>\<open>except Exception\<close> of lines 149 to 151 turns whatever the \<^verbatim>\<open>try\<close> block raises
  into a \<^verbatim>\<open>ValueError\<close>.
\<close>

definition handle_call_tool :: "(string \<Rightarrow> string) \<Rightarrow> string \<Rightarrow> json \<Rightarrow> json \<Rightarrow> exc + TextContent list" where
  "handle_call_tool lower now name arguments =
     (if name = JStr ''test_slack'' then Inr [TextContent ''text'' (Plain ''bingo!'')]
      else if name = JStr ''get_tasklist'' then
        (case contains arguments ''category'' of
           Inl e \<Rightarrow> Inl e
         | Inr False \<Rightarrow> Inl (ValueError (Message ''Missing required argument: category''))
         | Inr True \<Rightarrow>
             (case subscript arguments ''category'' of
                Inl e \<Rightarrow> Inl e
              | Inr v \<Rightarrow>
                  (case str_lower lower v of
                     Inl e \<Rightarrow> Inl e
                   | Inr category \<Rightarrow>
                       (case tasklist_try now category of
                          Inl e \<Rightarrow>
                            Inl (ValueError (prepend ''Error retrieving tasks: '' (exc_str e)))
                        | Inr result \<Rightarrow> Inr result))))
      else Inl (ValueError (fmt ''Unknown tool: '' name)))"

section \<open>JSON-RPC envelopes and request bodies\<close>

text \<open>
  A response envelope is the dictionary \<^verbatim>\<open>{"jsonrpc": "2.0", "id": ..., "result": ...}\<close>
  or \<^verbatim>\<open>{"jsonrpc": "2.0", "id": ..., "error": {"code": ..., "message": ...}}\<close>.
  The result of a tool call, \<^verbatim>\<open>{"content": [c.model_dump() for c in result]}\<close>, is kept
  as the content blocks themselves.
\<close>

datatype result_payload = Result json | Content "TextContent list"

datatype envelope =
    Success (envelope_id: json) result_payload
  | Failure (envelope_id: json) int message

definition parse_error :: envelope where
  "parse_error = Failure JNull (- 32700) (Message ''Parse error'')"

text \<open>
  What \<^verbatim>\<open>json.loads\<close> makes of a text: it raises \<^verbatim>\<open>JSONDecodeError\<close> (\<open>Malformed\<close>),
  or it raises another exception (\<open>Unloadable\<close>: a \<^verbatim>\<open>RecursionError\<close> for brackets
  nested too deep, a plain \<^verbatim>\<open>ValueError\<close> for an integer of more digits than the
  interpreter converts), or it returns a value. A request body is empty, or bytes that
  \<^verbatim>\<open>body.decode()\<close> rejects (\<open>Undecodable\<close>), or the bytes of a text that is not empty.
\<close>

datatype payload = Malformed | Unloadable exc | Document json

datatype body = Empty_body | Undecodable | Utf8 payload

text \<open>
  What a route function hands back to the framework: a dictionary it returns (sent as
  JSON with status 200), a \<^verbatim>\<open>Response\<close> with a status and a text, or an exception that
  leaves the function.
\<close>

datatype http_response =
    Json_response envelope
  | Response nat string
  | Unhandled exc

definition server_info :: dict where
  "server_info = [(''name'', JStr ''mcp-sse-server''), (''version'', JStr ''0.1.0'')]"

text \<open>The \<^verbatim>\<open>initialize\<close> result of the two POST routes (lines 243 to 254, 446 to 457).\<close>

definition initialize_result :: json where
  "initialize_result =
     JObj [(''protocolVersion'', JStr ''2024-11-05''),
           (''capabilities'', JObj [(''tools'', JObj [(''listChanged'', JBool True)])]),
           (''serverInfo'', JObj server_info)]"

text \<open>The \<^verbatim>\<open>initialize\<close> result of the WebSocket route (lines 592 to 601).\<close>

definition ws_initialize_result :: json where
  "ws_initialize_result =
     JObj [(''protocolVersion'', JStr ''2024-11-05''),
           (''capabilities'', JObj [(''tools'', JObj [])]),
           (''serverInfo'', JObj server_info)]"

text \<open>The literal \<^verbatim>\<open>tools_data\<close> of the two POST routes (lines 260 to 285, 463 to 488).\<close>

definition tools_data :: "json list" where
  "tools_data =
     [JObj [(''name'', JStr ''get_tasklist''),
            (''description'', JStr ''Get a list of tasks filtered by category''),
            (''inputSchema'',
               JObj [(''type'', JStr ''object''),
                     (''properties'',
                        JObj [(''category'',
                           JObj [(''type'', JStr ''string''),
                                 (''description'', JStr ''The category to filter tasks by''),
                                 (''enum'', JArr [JStr ''work'', JStr ''personal'',
                                                  JStr ''learning'', JStr ''home'', JStr ''all''])])]),
                     (''required'', JArr [JStr ''category''])])],
      JObj [(''name'', JStr ''test_slack''),
            (''description'', JStr ''Test Slack integration''),
            (''inputSchema'',
               JObj [(''type'', JStr ''object''), (''properties'', JObj []),
                     (''required'', JArr [])])]]"

text \<open>
  The \<^verbatim>\<open>tools/call\<close> branch, the same text in all three routes (lines 296 to 319,
  498 to 521, 616 to 639). \<^verbatim>\<open>params.get\<close> stands before the inner \<^verbatim>\<open>try\<close>, so its
  \<^verbatim>\<open>AttributeError\<close> for a \<^verbatim>\<open>params\<close> that is no dictionary leaves the branch (\<open>Inl\<close>);
  whatever \<^verbatim>\<open>handle_call_tool\<close> raises becomes an error envelope with code -32603.
\<close>

definition tools_call :: "(string \<Rightarrow> string) \<Rightarrow> string \<Rightarrow> json \<Rightarrow> json \<Rightarrow> exc + envelope" where
  "tools_call lower now request_id params =
     (case params of
        JObj p \<Rightarrow>
          (let tool_name = dict_get p ''name'';
               arguments = dict_get_default p ''arguments'' (JObj [])
           in case handle_call_tool lower now tool_name arguments of
                Inr result \<Rightarrow> Inr (Success request_id (Content result))
              | Inl e \<Rightarrow> Inr (Failure request_id (- 32603) (exc_str e)))
      | _ \<Rightarrow> Inl (no_attribute params ''get''))"

definition method_not_found :: "json \<Rightarrow> json \<Rightarrow> envelope" where
  "method_not_found request_id method =
     Failure request_id (- 32601) (fmt ''Method not found: '' method)"

section \<open>The routes\<close>

text \<open>
  \<^verbatim>\<open>POST /mcp/sse\<close>: \<^verbatim>\<open>mcp_sse_endpoint\<close> (lines 222 to 350). Its \<^verbatim>\<open>try\<close> catches
  \<^verbatim>\<open>json.JSONDecodeError\<close> only (line 337): every other exception of the decoding, the
  parsing and the dispatch leaves the function.
\<close>

definition mcp_sse_endpoint :: "(string \<Rightarrow> string) \<Rightarrow> string \<Rightarrow> body \<Rightarrow> http_response" where
  "mcp_sse_endpoint lower now request_body =
     (case request_body of
        Empty_body \<Rightarrow> Response 400 ''Request body required''
      | Undecodable \<Rightarrow> Unhandled (UnicodeDecodeError (Message_interpreter []))
      | Utf8 Malformed \<Rightarrow> Json_response parse_error
      | Utf8 (Unloadable e) \<Rightarrow> Unhandled e
      | Utf8 (Document (JObj message)) \<Rightarrow>
          (let method = dict_get message ''method'';
               request_id = dict_get message ''id'';
               params = dict_get_default message ''params'' (JObj [])
           in if method = JStr ''initialize'' then
                Json_response (Success request_id (Result initialize_result))
              else if method = JStr ''tools/list'' then
                Json_response (Success request_id (Result (JObj [(''tools'', JArr tools_data)])))
              else if method = JStr ''tools/call'' then
                (case tools_call lower now request_id params of
                   Inr response \<Rightarrow> Json_response response
                 | Inl e \<Rightarrow> Unhandled e)
              else if method = JStr ''notifications/initialized'' then Response 202 []
              else Json_response (method_not_found request_id method))
      | Utf8 (Document v) \<Rightarrow> Unhandled (no_attribute v ''get''))"

text \<open>
  \<^verbatim>\<open>POST /mcp\<close>: \<^verbatim>\<open>mcp_endpoint\<close> (lines 430 to 542). The whole body stands in one
  \<^verbatim>\<open>try\<close> whose \<^verbatim>\<open>except Exception\<close> answers with the parse error envelope.
\<close>

definition mcp_endpoint :: "(string \<Rightarrow> string) \<Rightarrow> string \<Rightarrow> body \<Rightarrow> http_response" where
  "mcp_endpoint lower now request_body =
     (case request_body of
        Utf8 (Document (JObj message)) \<Rightarrow>
          (let method = dict_get message ''method'';
               request_id = dict_get message ''id'';
               params = dict_get_default message ''params'' (JObj [])
           in if method = JStr ''initialize'' then
                Json_response (Success request_id (Result initialize_result))
              else if method = JStr ''tools/list'' then
                Json_response (Success request_id (Result (JObj [(''tools'', JArr tools_data)])))
              else if method = JStr ''tools/call'' then
                (case tools_call lower now request_id params of
                   Inr response \<Rightarrow> Json_response response
                 | Inl e \<Rightarrow> Json_response parse_error)
              else Json_response (method_not_found request_id method))
      | _ \<Rightarrow> Json_response parse_error)"

text \<open>\<^verbatim>\<open>GET /tools\<close>: \<^verbatim>\<open>list_tools\<close> (lines 204 to 208).\<close>

definition list_tools :: "dict \<Rightarrow> json" where
  "list_tools extra = JObj [(''tools'', JArr (map (model_dump extra) handle_list_tools))]"

text \<open>
  \<^verbatim>\<open>GET /tasks/{category}\<close>: \<^verbatim>\<open>get_tasks\<close> (lines 210 to 220). \<open>Inl (status, detail)\<close>
  is the \<^verbatim>\<open>HTTPException\<close>; \<^verbatim>\<open>json.loads\<close> reads back the value \<^verbatim>\<open>json.dumps\<close> wrote
  (a \<^verbatim>\<open>get_tasklist\<close> call returns one block of dumped JSON or raises).
\<close>

definition get_tasks :: "(string \<Rightarrow> string) \<Rightarrow> string \<Rightarrow> string \<Rightarrow> (nat \<times> message) + json" where
  "get_tasks lower now category =
     (case handle_call_tool lower now (JStr ''get_tasklist'')
             (JObj [(''category'', JStr category)]) of
        Inr (TextContent _ (Json_dumps v) # _) \<Rightarrow> Inr v
      | Inl (ValueError m) \<Rightarrow> Inl (400, m)
      | _ \<Rightarrow> Inl (500, Message ''Internal server error''))"

text \<open>
  \<^verbatim>\<open>/mcp/ws\<close>: one pass of the loop of \<^verbatim>\<open>mcp_websocket_endpoint\<close> (lines 579 to 662)
  for a text frame. \<open>Inr\<close> is the envelope sent; \<open>Inl e\<close>: the exception \<open>e\<close> leaves the
  inner \<^verbatim>\<open>try\<close>, which catches \<^verbatim>\<open>JSONDecodeError\<close> only.
\<close>

definition ws_message :: "(string \<Rightarrow> string) \<Rightarrow> dict \<Rightarrow> string \<Rightarrow> payload \<Rightarrow> exc + envelope" where
  "ws_message lower extra now data =
     (case data of
        Malformed \<Rightarrow> Inr parse_error
      | Unloadable e \<Rightarrow> Inl e
      | Document (JObj message) \<Rightarrow>
          (let method = dict_get message ''method'';
               request_id = dict_get message ''id'';
               params = dict_get_default message ''params'' (JObj [])
           in if method = JStr ''initialize'' then
                Inr (Success request_id (Result ws_initialize_result))
              else if method = JStr ''tools/list'' then
                Inr (Success request_id
                       (Result (JObj [(''tools'', JArr (map (model_dump extra) handle_list_tools))])))
              else if method = JStr ''tools/call'' then tools_call lower now request_id params
              else Inr (method_not_found request_id method))
      | Document v \<Rightarrow> Inl (no_attribute v ''get''))"

text \<open>
  The connection: the text frames the client sends before it disconnects, each with the
  time at which the server handles it; the result is the envelopes sent, in order. An
  exception that leaves the inner \<^verbatim>\<open>try\<close> is caught outside the \<^verbatim>\<open>while\<close> loop
  (lines 664 to 667), so the route returns and the frames after it get no answer.
\<close>

fun mcp_websocket_endpoint ::
  "(string \<Rightarrow> string) \<Rightarrow> dict \<Rightarrow> (string \<times> payload) list \<Rightarrow> envelope list" where
  "mcp_websocket_endpoint lower extra [] = []"
| "mcp_websocket_endpoint lower extra ((now, data) # frames) =
     (case ws_message lower extra now data of
        Inr response \<Rightarrow> response # mcp_websocket_endpoint lower extra frames
      | Inl e \<Rightarrow> [])"

section \<open>The event stream\<close>

text \<open>
  \<^verbatim>\<open>GET /mcp/sse\<close>: the generator \<^verbatim>\<open>event_stream\<close> (lines 356 to 414). Each
  \<^verbatim>\<open>yield f"data: {json.dumps(v)}\n\n"\<close> is kept as the value \<open>v\<close>. The generator stands
  before its first \<^verbatim>\<open>yield\<close>, between the first and the second, or in the loop after
  \<open>n\<close> heartbeats; \<open>clock n\<close> is \<^verbatim>\<open>datetime.now().isoformat()\<close> at heartbeat \<open>n\<close>.
  Nothing in the body raises, so the \<^verbatim>\<open>except\<close> branches are reached only when the
  consumer cancels the stream, which ends it.
\<close>

datatype stream_state = Opened | Info_sent | Pinging nat

definition capabilities_notification :: json where
  "capabilities_notification =
     JObj [(''jsonrpc'', JStr ''2.0''),
           (''method'', JStr ''notifications/initialized''),
           (''params'', initialize_result)]"

definition tools_notification :: "dict \<Rightarrow> json" where
  "tools_notification extra =
     JObj [(''jsonrpc'', JStr ''2.0''),
           (''method'', JStr ''notifications/tools_changed''),
           (''params'', JObj [(''tools'', JArr (map (model_dump extra) handle_list_tools))])]"

definition heartbeat :: "string \<Rightarrow> json" where
  "heartbeat now =
     JObj [(''jsonrpc'', JStr ''2.0''),
           (''method'', JStr ''notifications/ping''),
           (''params'', JObj [(''timestamp'', JStr now)])]"

fun event_stream_next :: "dict \<Rightarrow> (nat \<Rightarrow> string) \<Rightarrow> stream_state \<Rightarrow> json \<times> stream_state" where
  "event_stream_next extra clock Opened = (capabilities_notification, Info_sent)"
| "event_stream_next extra clock Info_sent = (tools_notification extra, Pinging 0)"
| "event_stream_next extra clock (Pinging n) = (heartbeat (clock n), Pinging (Suc n))"

text \<open>The first \<open>k\<close> events a consumer reads from state \<open>s\<close> on.\<close>

fun events_from :: "dict \<Rightarrow> (nat \<Rightarrow> string) \<Rightarrow> stream_state \<Rightarrow> nat \<Rightarrow> json list" where
  "events_from extra clock s 0 = []"
| "events_from extra clock s (Suc k) =
     (case event_stream_next extra clock s of (v, s') \<Rightarrow> v # events_from extra clock s' k)"

definition event_stream :: "dict \<Rightarrow> (nat \<Rightarrow> string) \<Rightarrow> nat \<Rightarrow> json list" where
  "event_stream extra clock k = events_from extra clock Opened k"

section \<open>The task data as objects in a store\<close>

text \<open>
  The dictionaries of \<^verbatim>\<open>SAMPLE_TASKS\<close> are mutable objects that the tool call reads
  through references. Here every dictionary object lives at an address of a store,
  \<open>fresh\<close> is the next unused address, and \<open>sample_tasks\<close> is the module's table from
  category names to the lists of references to its task objects.
\<close>

record store =
  heap :: "nat \<Rightarrow> dict option"
  fresh :: nat
  sample_tasks :: "(string \<times> nat list) list"

definition deref :: "store \<Rightarrow> nat \<Rightarrow> dict" where
  "deref s a = (case heap s a of Some d \<Rightarrow> d | None \<Rightarrow> [])"

text \<open>A new dictionary object with the items \<open>d\<close>.\<close>

definition alloc :: "dict \<Rightarrow> store \<Rightarrow> nat \<times> store" where
  "alloc d s = (fresh s, s\<lparr>heap := (heap s)(fresh s \<mapsto> d), fresh := Suc (fresh s)\<rparr>)"

text \<open>\<^verbatim>\<open>obj[k] = v\<close> on the object at address \<open>a\<close>.\<close>

definition setitem :: "nat \<Rightarrow> string \<Rightarrow> json \<Rightarrow> store \<Rightarrow> store" where
  "setitem a k v s = s\<lparr>heap := (heap s)(a \<mapsto> dict_set (deref s a) k v)\<rparr>"

text \<open>
  Lines 116 to 121 on the store: \<^verbatim>\<open>task.copy()\<close> makes a new object, the assignment
  writes to that object, and the list collects its reference.
\<close>

fun copy_tasks_st :: "string \<Rightarrow> nat list \<Rightarrow> nat list \<Rightarrow> store \<Rightarrow> nat list \<times> store" where
  "copy_tasks_st cat [] all_tasks s = (all_tasks, s)"
| "copy_tasks_st cat (t # tasks) all_tasks s =
     (case alloc (deref s t) s of
        (task_with_category, s1) \<Rightarrow>
          copy_tasks_st cat tasks (all_tasks @ [task_with_category])
            (setitem task_with_category ''category'' (JStr cat) s1))"

fun copy_categories_st ::
  "(string \<times> nat list) list \<Rightarrow> nat list \<Rightarrow> store \<Rightarrow> nat list \<times> store" where
  "copy_categories_st [] all_tasks s = (all_tasks, s)"
| "copy_categories_st ((cat, tasks) # items) all_tasks s =
     (case copy_tasks_st cat tasks all_tasks s of
        (all_tasks', s') \<Rightarrow> copy_categories_st items all_tasks' s')"

text \<open>
  Lines 125 to 128 on the store: the comprehension makes one new object
  \<^verbatim>\<open>{**task, "category": category}\<close> per task.
\<close>

fun spread_tasks_st :: "string \<Rightarrow> nat list \<Rightarrow> store \<Rightarrow> nat list \<times> store" where
  "spread_tasks_st category [] s = ([], s)"
| "spread_tasks_st category (t # tasks) s =
     (case alloc (dict_set (deref s t) ''category'' (JStr category)) s of
        (a, s1) \<Rightarrow>
          (case spread_tasks_st category tasks s1 of (refs, s2) \<Rightarrow> (a # refs, s2)))"

text \<open>
  The \<^verbatim>\<open>try\<close> block and \<^verbatim>\<open>handle_call_tool\<close> on the store; \<^verbatim>\<open>json.dumps\<close> reads the
  result objects from the store as the block leaves it.
\<close>

definition tasklist_try_st ::
  "string \<Rightarrow> string \<Rightarrow> store \<Rightarrow> (exc + TextContent list) \<times> store" where
  "tasklist_try_st now category s =
     (if category = ''all'' then
        (case copy_categories_st (sample_tasks s) [] s of
           (result_tasks, s') \<Rightarrow>
             (Inr [TextContent ''text''
                     (Json_dumps (response_data now category (map (deref s') result_tasks)))],
              s'))
      else
        (case map_of (sample_tasks s) category of
           Some tasks \<Rightarrow>
             (case spread_tasks_st category tasks s of
                (result_tasks, s') \<Rightarrow>
                  (Inr [TextContent ''text''
                          (Json_dumps (response_data now category (map (deref s') result_tasks)))],
                   s'))
         | None \<Rightarrow>
             (Inl (ValueError (Message
                (''Invalid category '' @ quoted category @ ''. Available categories: '' @
                 join '', '' (map fst (sample_tasks s) @ [''all''])))),
              s)))"

definition handle_call_tool_st ::
  "(string \<Rightarrow> string) \<Rightarrow> string \<Rightarrow> json \<Rightarrow> json \<Rightarrow> store \<Rightarrow> (exc + TextContent list) \<times> store" where
  "handle_call_tool_st lower now name arguments s =
     (if name = JStr ''test_slack'' then (Inr [TextContent ''text'' (Plain ''bingo!'')], s)
      else if name = JStr ''get_tasklist'' then
        (case contains arguments ''category'' of
           Inl e \<Rightarrow> (Inl e, s)
         | Inr False \<Rightarrow> (Inl (ValueError (Message ''Missing required argument: category'')), s)
         | Inr True \<Rightarrow>
             (case subscript arguments ''category'' of
                Inl e \<Rightarrow> (Inl e, s)
              | Inr v \<Rightarrow>
                  (case str_lower lower v of
                     Inl e \<Rightarrow> (Inl e, s)
                   | Inr category \<Rightarrow>
                       (case tasklist_try_st now category s of
                          (Inl e, s') \<Rightarrow>
                            (Inl (ValueError (prepend ''Error retrieving tasks: '' (exc_str e))), s')
                        | (Inr result, s') \<Rightarrow> (Inr result, s')))))
      else (Inl (ValueError (fmt ''Unknown tool: '' name)), s))"

text \<open>The module's start: every task literal becomes an object, in the order of the source.\<close>

fun load_tasks :: "dict list \<Rightarrow> store \<Rightarrow> nat list \<times> store" where
  "load_tasks [] s = ([], s)"
| "load_tasks (d # ds) s =
     (case alloc d s of (a, s1) \<Rightarrow>
        (case load_tasks ds s1 of (refs, s2) \<Rightarrow> (a # refs, s2)))"

fun load_categories ::
  "(string \<times> dict list) list \<Rightarrow> store \<Rightarrow> (string \<times> nat list) list \<times> store" where
  "load_categories [] s = ([], s)"
| "load_categories ((cat, ds) # items) s =
     (case load_tasks ds s of (refs, s1) \<Rightarrow>
        (case load_categories items s1 of (table, s2) \<Rightarrow> ((cat, refs) # table, s2)))"

definition initial_store :: store where
  "initial_store =
     (case load_categories SAMPLE_TASKS \<lparr>heap = (\<lambda>_. None), fresh = 0, sample_tasks = []\<rparr> of
        (table, s) \<Rightarrow> s\<lparr>sample_tasks := table\<rparr>)"

text \<open>The task data a store holds: the table with every reference replaced by its object.\<close>

definition task_data :: "store \<Rightarrow> (string \<times> dict list) list" where
  "task_data s = map (\<lambda>(cat, refs). (cat, map (deref s) refs)) (sample_tasks s)"

text \<open>Any number of tool calls, one after the other: their results and the store they leave.\<close>

fun run_calls ::
  "(string \<Rightarrow> string) \<Rightarrow> (string \<times> json \<times> json) list \<Rightarrow> store \<Rightarrow> (exc + TextContent list) list \<times> store" where
  "run_calls lower [] s = ([], s)"
| "run_calls lower ((now, name, arguments) # calls) s =
     (case handle_call_tool_st lower now name arguments s of
        (r, s1) \<Rightarrow> (case run_calls lower calls s1 of (rs, s2) \<Rightarrow> (r # rs, s2)))"

text \<open>Every reference of the table points below \<open>fresh\<close>, where no new object is made.\<close>

definition table_allocated :: "store \<Rightarrow> bool" where
  "table_allocated s = list_all (\<lambda>(cat, refs). list_all (\<lambda>r. r < fresh s) refs) (sample_tasks s)"

text \<open>
  \<open>s'\<close> comes from \<open>s\<close> by making new objects only: the table is the same and
  every object of \<open>s\<close> is as it was.
\<close>

definition extends :: "store \<Rightarrow> store \<Rightarrow> bool" where
  "extends s s' =
     (sample_tasks s' = sample_tasks s \<and> fresh s \<le> fresh s' \<and>
      (\<forall>a<fresh s. heap s' a = heap s a))"

section \<open>Notions of the specification\<close>

text \<open>
  The specification's session flag \<open>initialized\<close>: false when the connection opens and
  true once an \<^verbatim>\<open>initialize\<close> request has come in. The server keeps no such flag; this
  reads it off the frames a connection has received so far.
\<close>

fun is_initialize :: "payload \<Rightarrow> bool" where
  "is_initialize (Document (JObj message)) = (dict_get message ''method'' = JStr ''initialize'')"
| "is_initialize _ = False"

definition spec_initialized :: "payload list \<Rightarrow> bool" where
  "spec_initialized received = list_ex is_initialize received"

text \<open>The content of a catalog entry: its name, description and input schema.\<close>

fun entry_fields :: "json \<Rightarrow> json \<times> json \<times> json" where
  "entry_fields (JObj d) =
     (dict_get d ''name'', dict_get d ''description'', dict_get d ''inputSchema'')"
| "entry_fields _ = (JNull, JNull, JNull)"

section \<open>Properties of the tool call\<close>

lemma ascii_lower_char_idem: "ascii_lower_char (ascii_lower_char c) = ascii_lower_char c"
  by (simp add: ascii_lower_char_def split: option.splits if_splits)

lemma ascii_lower_idem: "ascii_lower (ascii_lower s) = ascii_lower s"
  by (simp add: ascii_lower_def ascii_lower_char_idem)

lemma map_of_dict_set: "map_of (dict_set d k v) k = Some v"
  by (induction d) auto

lemma dict_get_dict_set: "dict_get (dict_set d k v) k = v"
  by (simp add: dict_get_def map_of_dict_set)

lemma copy_tasks_eq:
  "copy_tasks cat tasks all_tasks =
     all_tasks @ map (\<lambda>t. dict_set t ''category'' (JStr cat)) tasks"
  by (induction tasks arbitrary: all_tasks) simp_all

lemma copy_categories_eq:
  "copy_categories items all_tasks =
     all_tasks @
     concat (map (\<lambda>(cat, tasks). map (\<lambda>t. dict_set t ''category'' (JStr cat)) tasks) items)"
  by (induction items arbitrary: all_tasks) (auto simp: copy_tasks_eq)

lemma length_copy_categories:
  "length (copy_categories items []) = sum_list (map (\<lambda>(cat, tasks). length tasks) items)"
  by (induction items) (auto simp: copy_categories_eq length_concat comp_def case_prod_unfold)

text \<open>
  With a string under the key \<^verbatim>\<open>category\<close>, the call is the \<^verbatim>\<open>try\<close> block on the
  lowercased string.
\<close>

lemma get_tasklist_lowered:
  "map_of arguments ''category'' = Some (JStr c) \<Longrightarrow>
   handle_call_tool lower now (JStr ''get_tasklist'') (JObj arguments) =
     (case tasklist_try now (lower c) of
        Inl e \<Rightarrow> Inl (ValueError (prepend ''Error retrieving tasks: '' (exc_str e)))
      | Inr result \<Rightarrow> Inr result)"
  by (simp add: handle_call_tool_def)

lemma sample_categories:
  "map fst SAMPLE_TASKS = [''work'', ''personal'', ''learning'', ''home'']"
  by (simp add: SAMPLE_TASKS_def)

lemma sample_total: "sum_list (map (\<lambda>(cat, tasks). length tasks) SAMPLE_TASKS) = 14"
  by (simp add: SAMPLE_TASKS_def)

lemma map_of_sample_None:
  "c \<notin> {''work'', ''personal'', ''learning'', ''home''} \<Longrightarrow> map_of SAMPLE_TASKS c = None"
proof -
  assume c: "c \<notin> {''work'', ''personal'', ''learning'', ''home''}"
  have "fst ` set SAMPLE_TASKS = set (map fst SAMPLE_TASKS)"
    by simp
  also have "\<dots> = {''work'', ''personal'', ''learning'', ''home''}"
    by (simp only: sample_categories) simp
  finally show ?thesis
    using c by (simp add: map_of_eq_None_iff)
qed

text \<open>
  No task of \<^verbatim>\<open>SAMPLE_TASKS\<close> has a key \<^verbatim>\<open>category\<close>, so the assignment puts the new
  key behind the five keys of the task.
\<close>

lemma sample_entries:
  "concat (map (\<lambda>(cat, tasks). map (\<lambda>t. JObj (dict_set t ''category'' (JStr cat))) tasks)
     SAMPLE_TASKS) =
   concat (map (\<lambda>(cat, tasks). map (\<lambda>t. JObj (t @ [(''category'', JStr cat)])) tasks)
     SAMPLE_TASKS)"
  by (simp add: SAMPLE_TASKS_def task_def)

lemma work_entries:
  "map_of SAMPLE_TASKS ''work'' = Some tasks \<Longrightarrow>
   map (\<lambda>t. dict_set t ''category'' (JStr ''work'')) tasks =
     map (\<lambda>t. t @ [(''category'', JStr ''work'')]) tasks \<and> length tasks = 4"
  by (auto simp: SAMPLE_TASKS_def task_def)

lemma invalid_category_raises:
  assumes "lower c \<notin> {''all'', ''work'', ''personal'', ''learning'', ''home''}"
  shows "handle_call_tool lower now (JStr ''get_tasklist'') (JObj [(''category'', JStr c)]) =
     Inl (ValueError (Message (''Error retrieving tasks: Invalid category '' @
         [CHR 0x27] @ lower c @ [CHR 0x27] @
         ''. Available categories: work, personal, learning, home, all'')))"
proof -
  from assms have "map_of SAMPLE_TASKS (lower c) = None" and "lower c \<noteq> ''all''"
    by (simp_all add: map_of_sample_None)
  then show ?thesis
    by (simp add: get_tasklist_lowered tasklist_try_def sample_categories quoted_def)
qed

text \<open>
  Claim C3. A \<^verbatim>\<open>get_tasklist\<close> call whose category lowercases to \<^verbatim>\<open>all\<close> returns one
  text block. Its \<^verbatim>\<open>tasks\<close> field is the entries of all per-category lists of
  \<^verbatim>\<open>SAMPLE_TASKS\<close>, category after category in the table's order, each entry the items
  of the task followed by the key \<^verbatim>\<open>category\<close> with the name of the category it stands
  under; \<^verbatim>\<open>total_tasks\<close> is the sum of the lengths of the per-category lists.
\<close>

theorem get_tasklist_all:
  assumes "map_of arguments ''category'' = Some (JStr c)" and "lower c = ''all''"
  shows "handle_call_tool lower now (JStr ''get_tasklist'') (JObj arguments) =
    Inr [TextContent ''text'' (Json_dumps (JObj
      [(''category'', JStr ''all''),
       (''total_tasks'',
          JInt (int (sum_list (map (\<lambda>(cat, tasks). length tasks) SAMPLE_TASKS)))),
       (''tasks'', JArr (concat (map
           (\<lambda>(cat, tasks). map (\<lambda>t. JObj (t @ [(''category'', JStr cat)])) tasks)
           SAMPLE_TASKS))),
       (''timestamp'', JStr now)]))]"
proof -
  have "map JObj (copy_categories SAMPLE_TASKS []) =
      concat (map (\<lambda>(cat, tasks). map (\<lambda>t. JObj (dict_set t ''category'' (JStr cat))) tasks)
        SAMPLE_TASKS)"
    by (simp add: copy_categories_eq map_concat comp_def case_prod_unfold)
  then have "map JObj (copy_categories SAMPLE_TASKS []) =
      concat (map (\<lambda>(cat, tasks). map (\<lambda>t. JObj (t @ [(''category'', JStr cat)])) tasks)
        SAMPLE_TASKS)"
    by (simp only: sample_entries)
  then show ?thesis
    using assms
    by (simp add: get_tasklist_lowered tasklist_try_def response_data_def
        length_copy_categories)
qed

text \<open>
  The call with the category \<^verbatim>\<open>All\<close>: fourteen entries, of which the first is task 1
  with the category \<^verbatim>\<open>work\<close> and the last is task 14 with the category \<^verbatim>\<open>home\<close>.
\<close>

theorem get_tasklist_all_witness:
  "\<exists>entries.
     handle_call_tool ascii_lower ''2024-01-11T09:30:00'' (JStr ''get_tasklist'')
        (JObj [(''category'', JStr ''All'')]) =
      Inr [TextContent ''text'' (Json_dumps (JObj
        [(''category'', JStr ''all''),
         (''total_tasks'', JInt 14),
         (''tasks'', JArr entries),
         (''timestamp'', JStr ''2024-01-11T09:30:00'')]))]
     \<and> length entries = 14
     \<and> hd entries =
         JObj [(''id'', JInt 1), (''title'', JStr ''Complete project proposal''),
               (''status'', JStr ''pending''), (''priority'', JStr ''high''),
               (''due_date'', JStr ''2024-01-15''), (''category'', JStr ''work'')]
     \<and> last entries =
         JObj [(''id'', JInt 14), (''title'', JStr ''Plant new flowers''),
               (''status'', JStr ''completed''), (''priority'', JStr ''medium''),
               (''due_date'', JStr ''2024-01-05''), (''category'', JStr ''home'')]"
proof -
  define entries where
    "entries = concat (map
       (\<lambda>(cat, tasks). map (\<lambda>t. JObj (t @ [(''category'', JStr cat)])) tasks) SAMPLE_TASKS)"
  have l: "ascii_lower ''All'' = ''all''"
    by (simp add: ascii_lower_def ascii_lower_char_def)
  have m: "map_of [(''category'', JStr ''All'')] ''category'' = Some (JStr ''All'')"
    by simp
  have call: "handle_call_tool ascii_lower ''2024-01-11T09:30:00'' (JStr ''get_tasklist'')
        (JObj [(''category'', JStr ''All'')]) =
      Inr [TextContent ''text'' (Json_dumps (JObj
        [(''category'', JStr ''all''),
         (''total_tasks'', JInt 14),
         (''tasks'', JArr entries),
         (''timestamp'', JStr ''2024-01-11T09:30:00'')]))]"
    using get_tasklist_all [where lower = ascii_lower and c = "''All''"
        and now = "''2024-01-11T09:30:00''", OF m l]
    by (simp only: sample_total entries_def) simp
  have "length entries = 14"
    by (simp add: entries_def SAMPLE_TASKS_def)
  moreover have "hd entries =
         JObj [(''id'', JInt 1), (''title'', JStr ''Complete project proposal''),
               (''status'', JStr ''pending''), (''priority'', JStr ''high''),
               (''due_date'', JStr ''2024-01-15''), (''category'', JStr ''work'')]"
    by (simp add: entries_def SAMPLE_TASKS_def task_def)
  moreover have "last entries =
         JObj [(''id'', JInt 14), (''title'', JStr ''Plant new flowers''),
               (''status'', JStr ''completed''), (''priority'', JStr ''medium''),
               (''due_date'', JStr ''2024-01-05''), (''category'', JStr ''home'')]"
    by (simp add: entries_def SAMPLE_TASKS_def task_def)
  ultimately show ?thesis
    using call by blast
qed

text \<open>
  Claim C4, as the code has it. The category is lowercased before it is looked up, so
  \<^verbatim>\<open>WORK\<close> is accepted; and the call has one error class only. For a category string
  whose lowercase form is neither \<^verbatim>\<open>all\<close> nor a category of \<^verbatim>\<open>SAMPLE_TASKS\<close>,
  \<^verbatim>\<open>get_tasklist\<close> raises a \<^verbatim>\<open>ValueError\<close> whose message names the lowercased string and
  lists \<^verbatim>\<open>work, personal, learning, home, all\<close>. The \<^verbatim>\<open>tools/call\<close> branch of the
  JSON-RPC routes returns it as an error envelope with code -32603, the code of every
  other failed tool call, and \<^verbatim>\<open>GET /tasks/{category}\<close> as status 400.
\<close>

theorem invalid_category_error:
  assumes "lower c \<notin> {''all'', ''work'', ''personal'', ''learning'', ''home''}"
  shows "handle_call_tool lower now (JStr ''get_tasklist'') (JObj [(''category'', JStr c)]) =
     Inl (ValueError (Message (''Error retrieving tasks: Invalid category '' @
         [CHR 0x27] @ lower c @ [CHR 0x27] @
         ''. Available categories: work, personal, learning, home, all'')))
   \<and> tools_call lower now request_id
        (JObj [(''name'', JStr ''get_tasklist''),
               (''arguments'', JObj [(''category'', JStr c)])]) =
     Inr (Failure request_id (- 32603)
       (Message (''Error retrieving tasks: Invalid category '' @
         [CHR 0x27] @ lower c @ [CHR 0x27] @
         ''. Available categories: work, personal, learning, home, all'')))
   \<and> get_tasks lower now c =
     Inl (400, Message (''Error retrieving tasks: Invalid category '' @
         [CHR 0x27] @ lower c @ [CHR 0x27] @
         ''. Available categories: work, personal, learning, home, all''))"
  using invalid_category_raises [where lower = lower and c = c, OF assms]
  by (simp add: tools_call_def dict_get_def dict_get_default_def get_tasks_def)

theorem invalid_category_error_witness:
  "handle_call_tool ascii_lower ''2024-01-11T09:30:00'' (JStr ''get_tasklist'')
      (JObj [(''category'', JStr ''Garden'')]) =
     Inl (ValueError (Message
       ''Error retrieving tasks: Invalid category 'garden'. Available categories: work, personal, learning, home, all''))
   \<and> tools_call ascii_lower ''2024-01-11T09:30:00'' (JInt 7)
        (JObj [(''name'', JStr ''get_tasklist''),
               (''arguments'', JObj [(''category'', JStr ''Garden'')])]) =
     Inr (Failure (JInt 7) (- 32603) (Message
       ''Error retrieving tasks: Invalid category 'garden'. Available categories: work, personal, learning, home, all''))
   \<and> get_tasks ascii_lower ''2024-01-11T09:30:00'' ''Garden'' =
     Inl (400, Message
       ''Error retrieving tasks: Invalid category 'garden'. Available categories: work, personal, learning, home, all'')"
proof -
  have l: "ascii_lower ''Garden'' = ''garden''"
    by (simp add: ascii_lower_def ascii_lower_char_def)
  have h: "ascii_lower ''Garden'' \<notin> {''all'', ''work'', ''personal'', ''learning'', ''home''}"
    by (simp add: l)
  show ?thesis
    using invalid_category_error [where lower = ascii_lower and c = "''Garden''"
        and now = "''2024-01-11T09:30:00''" and request_id = "JInt 7", OF h]
    by (simp add: l)
qed

text \<open>
  Where claim C4 as stated fails: the category \<^verbatim>\<open>WORK\<close> is neither \<^verbatim>\<open>all\<close> nor one of
  the four category names, and the call succeeds; and the unknown category \<^verbatim>\<open>garden\<close>
  comes back from \<^verbatim>\<open>POST /mcp\<close> with the internal-error code -32603, as an unknown tool
  does.
\<close>

theorem invalid_category_counterexample:
  "\<not> isl (handle_call_tool ascii_lower ''2024-01-11T09:30:00'' (JStr ''get_tasklist'')
            (JObj [(''category'', JStr ''WORK'')]))
   \<and> mcp_endpoint ascii_lower ''2024-01-11T09:30:00''
        (Utf8 (Document (JObj
          [(''jsonrpc'', JStr ''2.0''), (''id'', JInt 7), (''method'', JStr ''tools/call''),
           (''params'', JObj [(''name'', JStr ''get_tasklist''),
                              (''arguments'', JObj [(''category'', JStr ''garden'')])])]))) =
     Json_response (Failure (JInt 7) (- 32603) (Message
       ''Error retrieving tasks: Invalid category 'garden'. Available categories: work, personal, learning, home, all''))
   \<and> mcp_endpoint ascii_lower ''2024-01-11T09:30:00''
        (Utf8 (Document (JObj
          [(''jsonrpc'', JStr ''2.0''), (''id'', JInt 8), (''method'', JStr ''tools/call''),
           (''params'', JObj [(''name'', JStr ''no_such_tool''), (''arguments'', JObj [])])]))) =
     Json_response (Failure (JInt 8) (- 32603) (Message ''Unknown tool: no_such_tool''))"
  by (simp add: mcp_endpoint_def tools_call_def dict_get_def dict_get_default_def
      handle_call_tool_def tasklist_try_def ascii_lower_def ascii_lower_char_def
      SAMPLE_TASKS_def quoted_def)

text \<open>
  Claim C9. The category is matched without regard to case. \<^verbatim>\<open>str.lower()\<close> lowers a
  lowercased string to itself; given that, a \<^verbatim>\<open>get_tasklist\<close> call with the category
  string \<open>s\<close> returns or raises exactly what a call with \<^verbatim>\<open>s.lower()\<close> does, whatever
  else the two argument dictionaries hold. And a category that lowercases to \<^verbatim>\<open>work\<close>,
  as \<^verbatim>\<open>WORK\<close> does, returns the four tasks of \<^verbatim>\<open>work\<close>, each with that category.
\<close>

theorem category_case_insensitive:
  assumes "\<forall>t. lower (lower t) = lower t"
    and "map_of arguments ''category'' = Some (JStr s)"
    and "map_of arguments' ''category'' = Some (JStr (lower s))"
  shows "handle_call_tool lower now (JStr ''get_tasklist'') (JObj arguments) =
         handle_call_tool lower now (JStr ''get_tasklist'') (JObj arguments')
     \<and> (lower s = ''work'' \<longrightarrow>
          (\<exists>tasks. map_of SAMPLE_TASKS ''work'' = Some tasks \<and>
             handle_call_tool lower now (JStr ''get_tasklist'') (JObj arguments) =
               Inr [TextContent ''text'' (Json_dumps (JObj
                 [(''category'', JStr ''work''),
                  (''total_tasks'', JInt 4),
                  (''tasks'', JArr (map (\<lambda>t. JObj (t @ [(''category'', JStr ''work'')])) tasks)),
                  (''timestamp'', JStr now)]))]))"
proof
  from assms(1) have "lower (lower s) = lower s"
    by simp
  then show "handle_call_tool lower now (JStr ''get_tasklist'') (JObj arguments) =
      handle_call_tool lower now (JStr ''get_tasklist'') (JObj arguments')"
    by (simp add: get_tasklist_lowered [OF assms(2)] get_tasklist_lowered [OF assms(3)])
next
  obtain tasks where t: "map_of SAMPLE_TASKS ''work'' = Some tasks"
    by (simp add: SAMPLE_TASKS_def)
  from work_entries [OF t]
  have e: "map (\<lambda>t. dict_set t ''category'' (JStr ''work'')) tasks =
      map (\<lambda>t. t @ [(''category'', JStr ''work'')]) tasks"
    and n: "length tasks = 4"
    by blast+
  have "handle_call_tool lower now (JStr ''get_tasklist'') (JObj arguments) =
      Inr [TextContent ''text'' (Json_dumps (JObj
        [(''category'', JStr ''work''),
         (''total_tasks'', JInt 4),
         (''tasks'', JArr (map (\<lambda>t. JObj (t @ [(''category'', JStr ''work'')])) tasks)),
         (''timestamp'', JStr now)]))]"
    if "lower s = ''work''"
  proof -
    have "map JObj (map (\<lambda>t. dict_set t ''category'' (JStr ''work'')) tasks) =
        map (\<lambda>t. JObj (t @ [(''category'', JStr ''work'')])) tasks"
      by (simp only: e) simp
    then show ?thesis
      using that t n
      by (simp add: get_tasklist_lowered [OF assms(2)] tasklist_try_def response_data_def)
  qed
  with t show "lower s = ''work'' \<longrightarrow>
      (\<exists>tasks. map_of SAMPLE_TASKS ''work'' = Some tasks \<and>
         handle_call_tool lower now (JStr ''get_tasklist'') (JObj arguments) =
           Inr [TextContent ''text'' (Json_dumps (JObj
             [(''category'', JStr ''work''),
              (''total_tasks'', JInt 4),
              (''tasks'', JArr (map (\<lambda>t. JObj (t @ [(''category'', JStr ''work'')])) tasks)),
              (''timestamp'', JStr now)]))])"
    by blast
qed

theorem category_case_insensitive_witness:
  "handle_call_tool ascii_lower ''2024-01-11T09:30:00'' (JStr ''get_tasklist'')
      (JObj [(''category'', JStr ''WORK'')]) =
   handle_call_tool ascii_lower ''2024-01-11T09:30:00'' (JStr ''get_tasklist'')
      (JObj [(''category'', JStr ''work'')])
   \<and> (\<exists>tasks. map_of SAMPLE_TASKS ''work'' = Some tasks \<and>
        handle_call_tool ascii_lower ''2024-01-11T09:30:00'' (JStr ''get_tasklist'')
            (JObj [(''category'', JStr ''WORK'')]) =
          Inr [TextContent ''text'' (Json_dumps (JObj
            [(''category'', JStr ''work''),
             (''total_tasks'', JInt 4),
             (''tasks'', JArr (map (\<lambda>t. JObj (t @ [(''category'', JStr ''work'')])) tasks)),
             (''timestamp'', JStr ''2024-01-11T09:30:00'')]))])"
proof -
  have i: "\<forall>t. ascii_lower (ascii_lower t) = ascii_lower t"
    by (simp add: ascii_lower_idem)
  have l: "ascii_lower ''WORK'' = ''work''"
    by (simp add: ascii_lower_def ascii_lower_char_def)
  have a: "map_of [(''category'', JStr ''WORK'')] ''category'' = Some (JStr ''WORK'')"
    by simp
  have b: "map_of [(''category'', JStr ''work'')] ''category'' =
      Some (JStr (ascii_lower ''WORK''))"
    by (simp add: l)
  note inst = category_case_insensitive [where lower = ascii_lower and s = "''WORK''"
      and now = "''2024-01-11T09:30:00''", OF i a b]
  from inst l show ?thesis
    by blast
qed

section \<open>Properties of the routes\<close>

text \<open>
  Claim C7. A \<^verbatim>\<open>tools/call\<close> request whose \<^verbatim>\<open>params\<close> is a dictionary (or is missing)
  and names a tool other than \<^verbatim>\<open>get_tasklist\<close> and \<^verbatim>\<open>test_slack\<close> is answered, on
  \<^verbatim>\<open>POST /mcp/sse\<close>, on \<^verbatim>\<open>POST /mcp\<close> and on the WebSocket, with an error envelope that
  carries the request's \<^verbatim>\<open>id\<close>, the code -32603 and the message
  \<^verbatim>\<open>Unknown tool: <name>\<close>; no exception leaves the route.
\<close>

theorem unknown_tool_error:
  assumes "name \<noteq> JStr ''get_tasklist''" and "name \<noteq> JStr ''test_slack''"
    and "dict_get message ''method'' = JStr ''tools/call''"
    and "dict_get_default message ''params'' (JObj []) = JObj params"
    and "dict_get params ''name'' = name"
  shows "mcp_sse_endpoint lower now (Utf8 (Document (JObj message))) =
           Json_response (Failure (dict_get message ''id'') (- 32603) (fmt ''Unknown tool: '' name))
       \<and> mcp_endpoint lower now (Utf8 (Document (JObj message))) =
           Json_response (Failure (dict_get message ''id'') (- 32603) (fmt ''Unknown tool: '' name))
       \<and> ws_message lower extra now (Document (JObj message)) =
           Inr (Failure (dict_get message ''id'') (- 32603) (fmt ''Unknown tool: '' name))"
  using assms
  by (simp add: mcp_sse_endpoint_def mcp_endpoint_def ws_message_def tools_call_def
      handle_call_tool_def)

theorem unknown_tool_error_witness:
  "mcp_sse_endpoint ascii_lower ''2024-01-11T09:30:00''
     (Utf8 (Document (JObj [(''jsonrpc'', JStr ''2.0''), (''id'', JInt 5), (''method'', JStr ''tools/call''),
        (''params'', JObj [(''name'', JStr ''delete_everything''), (''arguments'', JObj [])])]))) =
     Json_response (Failure (JInt 5) (- 32603) (Message ''Unknown tool: delete_everything''))
   \<and> mcp_endpoint ascii_lower ''2024-01-11T09:30:00''
     (Utf8 (Document (JObj [(''jsonrpc'', JStr ''2.0''), (''id'', JInt 5), (''method'', JStr ''tools/call''),
        (''params'', JObj [(''name'', JStr ''delete_everything''), (''arguments'', JObj [])])]))) =
     Json_response (Failure (JInt 5) (- 32603) (Message ''Unknown tool: delete_everything''))
   \<and> ws_message ascii_lower [] ''2024-01-11T09:30:00''
     (Document (JObj [(''jsonrpc'', JStr ''2.0''), (''id'', JInt 5), (''method'', JStr ''tools/call''),
        (''params'', JObj [(''name'', JStr ''delete_everything''), (''arguments'', JObj [])])])) =
     Inr (Failure (JInt 5) (- 32603) (Message ''Unknown tool: delete_everything''))"
proof -
  define request where
    "request = [(''jsonrpc'', JStr ''2.0''), (''id'', JInt 5), (''method'', JStr ''tools/call''),
        (''params'', JObj [(''name'', JStr ''delete_everything''), (''arguments'', JObj [])])]"
  have n1: "JStr ''delete_everything'' \<noteq> JStr ''get_tasklist''"
    and n2: "JStr ''delete_everything'' \<noteq> JStr ''test_slack''"
    by simp_all
  have m: "dict_get request ''method'' = JStr ''tools/call''"
    by (simp add: request_def dict_get_def)
  have p: "dict_get_default request ''params'' (JObj []) =
      JObj [(''name'', JStr ''delete_everything''), (''arguments'', JObj [])]"
    by (simp add: request_def dict_get_default_def)
  have n: "dict_get [(''name'', JStr ''delete_everything''), (''arguments'', JObj [])] ''name'' =
      JStr ''delete_everything''"
    by (simp add: dict_get_def)
  have i: "dict_get request ''id'' = JInt 5"
    by (simp add: request_def dict_get_def)
  have f: "fmt ''Unknown tool: '' (JStr ''delete_everything'') = Message ''Unknown tool: delete_everything''"
    by simp
  note err = unknown_tool_error [OF n1 n2 m p n,
      where lower = ascii_lower and now = "''2024-01-11T09:30:00''" and extra = "[]"]
  from err show ?thesis
    unfolding i f unfolding request_def by blast
qed

text \<open>
  Claim C2 does not hold on \<^verbatim>\<open>POST /mcp\<close> and on the WebSocket. Only \<^verbatim>\<open>POST /mcp/sse\<close>
  has a branch for \<^verbatim>\<open>notifications/initialized\<close> (status 202, no body); the other two
  routes lack it, so the notification falls through to the last branch and is answered
  with a method-not-found error envelope whose \<^verbatim>\<open>id\<close> is null.
\<close>

theorem initialized_notification_answered:
  "mcp_endpoint lower now (Utf8 (Document (JObj
      [(''jsonrpc'', JStr ''2.0''), (''method'', JStr ''notifications/initialized'')]))) =
     Json_response (Failure JNull (- 32601)
       (Message ''Method not found: notifications/initialized''))
   \<and> mcp_websocket_endpoint lower extra
        [(now, Document (JObj
           [(''jsonrpc'', JStr ''2.0''), (''method'', JStr ''notifications/initialized'')]))] =
     [Failure JNull (- 32601) (Message ''Method not found: notifications/initialized'')]
   \<and> mcp_sse_endpoint lower now (Utf8 (Document (JObj
      [(''jsonrpc'', JStr ''2.0''), (''method'', JStr ''notifications/initialized'')]))) =
     Response 202 []"
  by (simp add: mcp_endpoint_def mcp_sse_endpoint_def ws_message_def method_not_found_def
      dict_get_def dict_get_default_def)

text \<open>
  Claim C6 does not hold on \<^verbatim>\<open>POST /mcp/sse\<close>. Its \<^verbatim>\<open>try\<close> catches
  \<^verbatim>\<open>json.JSONDecodeError\<close> only, so a body of bytes that are not UTF-8 (a
  \<^verbatim>\<open>UnicodeDecodeError\<close> of \<^verbatim>\<open>body.decode()\<close>) and a text at which \<^verbatim>\<open>json.loads\<close> raises
  another exception leave the route as an unhandled exception. \<^verbatim>\<open>POST /mcp\<close>, whose
  \<^verbatim>\<open>try\<close> catches \<^verbatim>\<open>Exception\<close>, answers the same bodies with the parse error envelope:
  \<^verbatim>\<open>id\<close> null, code -32700. A text that \<^verbatim>\<open>json.loads\<close> rejects with
  \<^verbatim>\<open>JSONDecodeError\<close> gets that envelope on both routes.
\<close>

theorem undecodable_body_unhandled:
  "mcp_sse_endpoint lower now Undecodable = Unhandled (UnicodeDecodeError (Message_interpreter []))
   \<and> mcp_sse_endpoint lower now (Utf8 (Unloadable e)) = Unhandled e
   \<and> mcp_endpoint lower now Undecodable =
       Json_response (Failure JNull (- 32700) (Message ''Parse error''))
   \<and> mcp_endpoint lower now (Utf8 (Unloadable e)) =
       Json_response (Failure JNull (- 32700) (Message ''Parse error''))
   \<and> mcp_sse_endpoint lower now (Utf8 Malformed) =
       Json_response (Failure JNull (- 32700) (Message ''Parse error''))
   \<and> mcp_endpoint lower now (Utf8 Malformed) =
       Json_response (Failure JNull (- 32700) (Message ''Parse error''))"
  by (simp add: mcp_sse_endpoint_def mcp_endpoint_def parse_error_def)

lemma tools_data_fields:
  "map entry_fields tools_data = map entry_fields (map (model_dump extra) handle_list_tools)"
  by (simp add: tools_data_def handle_list_tools_def model_dump_def dict_get_def)

lemma tools_data_dump: "tools_data = map (model_dump []) handle_list_tools"
  by (simp add: tools_data_def handle_list_tools_def model_dump_def)

text \<open>
  Claim C5. \<^verbatim>\<open>GET /tools\<close> returns the dumps of the tools of \<^verbatim>\<open>handle_list_tools\<close>, and a
  \<^verbatim>\<open>tools/list\<close> request returns the literal \<^verbatim>\<open>tools_data\<close> on the two POST routes and
  the same dumps on the WebSocket. Entry by entry and in the same order, the literal and
  the dumps have the same name, description and input schema, whatever further fields
  \<^verbatim>\<open>model_dump\<close> adds; without further fields they are equal.
\<close>

theorem catalogs_agree:
  assumes "dict_get message ''method'' = JStr ''tools/list''"
  shows "list_tools extra = JObj [(''tools'', JArr (map (model_dump extra) handle_list_tools))]
     \<and> mcp_endpoint lower now (Utf8 (Document (JObj message))) =
         Json_response (Success (dict_get message ''id'') (Result (JObj [(''tools'', JArr tools_data)])))
     \<and> mcp_sse_endpoint lower now (Utf8 (Document (JObj message))) =
         Json_response (Success (dict_get message ''id'') (Result (JObj [(''tools'', JArr tools_data)])))
     \<and> ws_message lower extra now (Document (JObj message)) =
         Inr (Success (dict_get message ''id'')
               (Result (JObj [(''tools'', JArr (map (model_dump extra) handle_list_tools))])))
     \<and> map entry_fields tools_data = map entry_fields (map (model_dump extra) handle_list_tools)
     \<and> tools_data = map (model_dump []) handle_list_tools"
  using assms tools_data_fields [of extra] tools_data_dump
  by (simp add: list_tools_def mcp_endpoint_def mcp_sse_endpoint_def ws_message_def)

theorem catalogs_agree_witness:
  "mcp_endpoint ascii_lower ''2024-01-11T09:30:00''
     (Utf8 (Document (JObj [(''jsonrpc'', JStr ''2.0''), (''id'', JInt 3), (''method'', JStr ''tools/list'')]))) =
     Json_response (Success (JInt 3) (Result (JObj [(''tools'', JArr tools_data)])))
   \<and> list_tools [(''annotations'', JNull)] =
       JObj [(''tools'', JArr (map (model_dump [(''annotations'', JNull)]) handle_list_tools))]
   \<and> map entry_fields tools_data =
       map entry_fields (map (model_dump [(''annotations'', JNull)]) handle_list_tools)"
proof -
  define request where
    "request = [(''jsonrpc'', JStr ''2.0''), (''id'', JInt 3), (''method'', JStr ''tools/list'')]"
  have m: "dict_get request ''method'' = JStr ''tools/list''"
    by (simp add: request_def dict_get_def)
  have i: "dict_get request ''id'' = JInt 3"
    by (simp add: request_def dict_get_def)
  note agree = catalogs_agree [OF m, where extra = "[(''annotations'', JNull)]"
      and lower = ascii_lower and now = "''2024-01-11T09:30:00''"]
  from agree show ?thesis
    unfolding i unfolding request_def by blast
qed

lemma ws_append:
  "length (mcp_websocket_endpoint lower extra frames) = length frames \<Longrightarrow>
   mcp_websocket_endpoint lower extra (frames @ later) =
     mcp_websocket_endpoint lower extra frames @ mcp_websocket_endpoint lower extra later"
  by (induction frames) (auto split: sum.splits)

text \<open>
  Claim C1, as the code has it. No route keeps a session flag or looks at earlier
  messages. On the WebSocket, as long as every earlier frame was answered (the receive
  loop is still running), the envelopes sent for the frames that follow are those of a
  fresh connection, whether or not an \<^verbatim>\<open>initialize\<close> came before. And every
  \<^verbatim>\<open>tools/call\<close> request whose \<^verbatim>\<open>params\<close> is a dictionary is handed to
  \<^verbatim>\<open>handle_call_tool\<close> and answered with its result or its error, on the WebSocket and
  on both POST routes alike.
\<close>

theorem handshake_not_enforced:
  assumes "length (mcp_websocket_endpoint lower extra frames) = length frames"
    and "dict_get message ''method'' = JStr ''tools/call''"
    and "dict_get_default message ''params'' (JObj []) = JObj params"
    and "handle_call_tool lower now (dict_get params ''name'')
           (dict_get_default params ''arguments'' (JObj [])) = outcome"
  shows "mcp_websocket_endpoint lower extra (frames @ later) =
           mcp_websocket_endpoint lower extra frames @ mcp_websocket_endpoint lower extra later
     \<and> ws_message lower extra now (Document (JObj message)) =
          Inr (case outcome of
                 Inr result \<Rightarrow> Success (dict_get message ''id'') (Content result)
               | Inl e \<Rightarrow> Failure (dict_get message ''id'') (- 32603) (exc_str e))
     \<and> mcp_endpoint lower now (Utf8 (Document (JObj message))) =
          Json_response (case outcome of
                 Inr result \<Rightarrow> Success (dict_get message ''id'') (Content result)
               | Inl e \<Rightarrow> Failure (dict_get message ''id'') (- 32603) (exc_str e))
     \<and> mcp_sse_endpoint lower now (Utf8 (Document (JObj message))) =
          Json_response (case outcome of
                 Inr result \<Rightarrow> Success (dict_get message ''id'') (Content result)
               | Inl e \<Rightarrow> Failure (dict_get message ''id'') (- 32603) (exc_str e))"
  using assms(2-4) ws_append [OF assms(1), where later = later]
  by (simp add: ws_message_def mcp_endpoint_def mcp_sse_endpoint_def tools_call_def
      split: sum.splits)

theorem handshake_not_enforced_witness:
  "\<not> spec_initialized [Document (JObj [(''jsonrpc'', JStr ''2.0''), (''id'', JInt 1), (''method'', JStr ''tools/list'')])]
   \<and> mcp_websocket_endpoint ascii_lower []
       ([(''2024-01-11T09:30:00'',
          Document (JObj [(''jsonrpc'', JStr ''2.0''), (''id'', JInt 1), (''method'', JStr ''tools/list'')]))] @
        [(''2024-01-11T09:31:00'',
          Document (JObj [(''jsonrpc'', JStr ''2.0''), (''id'', JInt 2), (''method'', JStr ''tools/call''),
             (''params'', JObj [(''name'', JStr ''test_slack''), (''arguments'', JObj [])])]))]) =
     mcp_websocket_endpoint ascii_lower []
       [(''2024-01-11T09:30:00'',
          Document (JObj [(''jsonrpc'', JStr ''2.0''), (''id'', JInt 1), (''method'', JStr ''tools/list'')]))] @
     mcp_websocket_endpoint ascii_lower []
       [(''2024-01-11T09:31:00'',
          Document (JObj [(''jsonrpc'', JStr ''2.0''), (''id'', JInt 2), (''method'', JStr ''tools/call''),
             (''params'', JObj [(''name'', JStr ''test_slack''), (''arguments'', JObj [])])]))]
   \<and> mcp_endpoint ascii_lower ''2024-01-11T09:31:00''
        (Utf8 (Document (JObj [(''jsonrpc'', JStr ''2.0''), (''id'', JInt 2), (''method'', JStr ''tools/call''),
             (''params'', JObj [(''name'', JStr ''test_slack''), (''arguments'', JObj [])])]))) =
      Json_response (Success (JInt 2) (Content [TextContent ''text'' (Plain ''bingo!'')]))"
proof -
  define first_frame where "first_frame = (''2024-01-11T09:30:00'',
          Document (JObj [(''jsonrpc'', JStr ''2.0''), (''id'', JInt 1), (''method'', JStr ''tools/list'')]))"
  define call where "call = [(''jsonrpc'', JStr ''2.0''), (''id'', JInt 2), (''method'', JStr ''tools/call''),
             (''params'', JObj [(''name'', JStr ''test_slack''), (''arguments'', JObj [])])]"
  have running: "length (mcp_websocket_endpoint ascii_lower [] [first_frame]) = length [first_frame]"
    by (simp add: first_frame_def ws_message_def dict_get_def)
  have m: "dict_get call ''method'' = JStr ''tools/call''"
    by (simp add: call_def dict_get_def)
  have p: "dict_get_default call ''params'' (JObj []) =
        JObj [(''name'', JStr ''test_slack''), (''arguments'', JObj [])]"
    by (simp add: call_def dict_get_default_def)
  have h: "handle_call_tool ascii_lower ''2024-01-11T09:31:00''
        (dict_get [(''name'', JStr ''test_slack''), (''arguments'', JObj [])] ''name'')
        (dict_get_default [(''name'', JStr ''test_slack''), (''arguments'', JObj [])] ''arguments'' (JObj [])) =
      Inr [TextContent ''text'' (Plain ''bingo!'')]"
    by (simp add: handle_call_tool_def dict_get_def)
  have i: "\<not> spec_initialized [snd first_frame]"
    by (simp add: first_frame_def spec_initialized_def dict_get_def)
  have id: "dict_get call ''id'' = JInt 2"
    by (simp add: call_def dict_get_def)
  note inst = handshake_not_enforced [OF running m p h,
      where later = "[(''2024-01-11T09:31:00'', Document (JObj call))]"]
  from inst have a: "mcp_websocket_endpoint ascii_lower [] ([first_frame] @ [(''2024-01-11T09:31:00'', Document (JObj call))]) =
      mcp_websocket_endpoint ascii_lower [] [first_frame] @
      mcp_websocket_endpoint ascii_lower [] [(''2024-01-11T09:31:00'', Document (JObj call))]"
    by (rule conjunct1)
  from inst have b: "mcp_endpoint ascii_lower ''2024-01-11T09:31:00'' (Utf8 (Document (JObj call))) =
      Json_response (Success (JInt 2) (Content [TextContent ''text'' (Plain ''bingo!'')]))"
    by (simp only: id sum.case)
  from i a b show ?thesis
    unfolding first_frame_def call_def snd_conv by (intro conjI)
qed

text \<open>
  Where claim C1 as stated fails: a \<^verbatim>\<open>tools/call\<close> for \<^verbatim>\<open>test_slack\<close> that is the first
  message of a connection, with no \<^verbatim>\<open>initialize\<close> before it, reaches the tool and is
  answered with its result on all three routes.
\<close>

theorem handshake_counterexample:
  "\<not> spec_initialized []
   \<and> mcp_websocket_endpoint ascii_lower []
        [(''2024-01-11T09:31:00'',
          Document (JObj [(''jsonrpc'', JStr ''2.0''), (''id'', JInt 1), (''method'', JStr ''tools/call''),
             (''params'', JObj [(''name'', JStr ''test_slack''), (''arguments'', JObj [])])]))] =
       [Success (JInt 1) (Content [TextContent ''text'' (Plain ''bingo!'')])]
   \<and> mcp_endpoint ascii_lower ''2024-01-11T09:31:00''
        (Utf8 (Document (JObj [(''jsonrpc'', JStr ''2.0''), (''id'', JInt 1), (''method'', JStr ''tools/call''),
             (''params'', JObj [(''name'', JStr ''test_slack''), (''arguments'', JObj [])])]))) =
      Json_response (Success (JInt 1) (Content [TextContent ''text'' (Plain ''bingo!'')]))
   \<and> mcp_sse_endpoint ascii_lower ''2024-01-11T09:31:00''
        (Utf8 (Document (JObj [(''jsonrpc'', JStr ''2.0''), (''id'', JInt 1), (''method'', JStr ''tools/call''),
             (''params'', JObj [(''name'', JStr ''test_slack''), (''arguments'', JObj [])])]))) =
      Json_response (Success (JInt 1) (Content [TextContent ''text'' (Plain ''bingo!'')]))"
  by (simp add: spec_initialized_def ws_message_def mcp_endpoint_def mcp_sse_endpoint_def
      tools_call_def handle_call_tool_def dict_get_def dict_get_default_def)

section \<open>Properties of the event stream\<close>

lemma events_from_pinging:
  "events_from extra clock (Pinging n) k = map (\<lambda>i. heartbeat (clock i)) [n..<n + k]"
proof (induction k arbitrary: n)
  case 0
  show ?case by simp
next
  case (Suc k)
  have "[n..<n + Suc k] = n # [Suc n..<Suc n + k]"
    by (simp add: upt_rec)
  with Suc show ?case by simp
qed

text \<open>
  Claim C8. The first event of the stream is the capabilities notification: method
  \<^verbatim>\<open>notifications/initialized\<close> with the protocol version, the \<^verbatim>\<open>tools\<close> capability and
  the server's name and version. The second is \<^verbatim>\<open>notifications/tools_changed\<close> whose
  \<^verbatim>\<open>tools\<close> are, in order, the name, description and input schema of every tool of
  \<^verbatim>\<open>handle_list_tools\<close> (followed by the further fields of the dump). Every later event
  is a \<^verbatim>\<open>notifications/ping\<close> with the timestamp of its heartbeat.
\<close>

theorem event_stream_order:
  "event_stream extra clock (Suc (Suc k)) =
     JObj [(''jsonrpc'', JStr ''2.0''), (''method'', JStr ''notifications/initialized''),
           (''params'',
              JObj [(''protocolVersion'', JStr ''2024-11-05''),
                    (''capabilities'', JObj [(''tools'', JObj [(''listChanged'', JBool True)])]),
                    (''serverInfo'',
                       JObj [(''name'', JStr ''mcp-sse-server''), (''version'', JStr ''0.1.0'')])])]
     # JObj [(''jsonrpc'', JStr ''2.0''), (''method'', JStr ''notifications/tools_changed''),
             (''params'',
                JObj [(''tools'',
                   JArr (map (\<lambda>t. JObj ([(''name'', JStr (tool_name t)),
                                            (''description'', JStr (tool_description t)),
                                            (''inputSchema'', tool_inputSchema t)] @ extra))
                          handle_list_tools))])]
     # map (\<lambda>i. JObj [(''jsonrpc'', JStr ''2.0''), (''method'', JStr ''notifications/ping''),
                       (''params'', JObj [(''timestamp'', JStr (clock i))])]) [0..<k]"
proof -
  have "map (model_dump extra) handle_list_tools =
      map (\<lambda>t. JObj ([(''name'', JStr (tool_name t)),
                       (''description'', JStr (tool_description t)),
                       (''inputSchema'', tool_inputSchema t)] @ extra)) handle_list_tools"
    by (simp add: model_dump_def)
  then show ?thesis
    using events_from_pinging [of extra clock 0 k]
    by (simp add: event_stream_def capabilities_notification_def tools_notification_def
        heartbeat_def initialize_result_def server_info_def)
qed

text \<open>
  The stream of a library whose dump adds no field, read up to its second heartbeat.
\<close>

theorem event_stream_order_witness:
  "event_stream [] (\<lambda>n. if n = 0 then ''2024-01-11T09:30:30'' else ''2024-01-11T09:31:00'')
       (Suc (Suc (Suc (Suc 0)))) =
     [JObj [(''jsonrpc'', JStr ''2.0''), (''method'', JStr ''notifications/initialized''),
            (''params'',
               JObj [(''protocolVersion'', JStr ''2024-11-05''),
                     (''capabilities'', JObj [(''tools'', JObj [(''listChanged'', JBool True)])]),
                     (''serverInfo'',
                        JObj [(''name'', JStr ''mcp-sse-server''), (''version'', JStr ''0.1.0'')])])],
      JObj [(''jsonrpc'', JStr ''2.0''), (''method'', JStr ''notifications/tools_changed''),
            (''params'',
               JObj [(''tools'', JArr
                 [JObj [(''name'', JStr ''get_tasklist''),
                        (''description'', JStr ''Get a list of tasks filtered by category''),
                        (''inputSchema'',
                           JObj [(''type'', JStr ''object''),
                                 (''properties'',
                                    JObj [(''category'',
                                       JObj [(''type'', JStr ''string''),
                                             (''description'',
                                                JStr ''The category to filter tasks by''),
                                             (''enum'',
                                                JArr [JStr ''work'', JStr ''personal'',
                                                      JStr ''learning'', JStr ''home'',
                                                      JStr ''all''])])]),
                                 (''required'', JArr [JStr ''category''])])],
                  JObj [(''name'', JStr ''test_slack''),
                        (''description'', JStr ''Test Slack integration''),
                        (''inputSchema'',
                           JObj [(''type'', JStr ''object''), (''properties'', JObj []),
                                 (''required'', JArr [])])]])])],
      JObj [(''jsonrpc'', JStr ''2.0''), (''method'', JStr ''notifications/ping''),
            (''params'', JObj [(''timestamp'', JStr ''2024-01-11T09:30:30'')])],
      JObj [(''jsonrpc'', JStr ''2.0''), (''method'', JStr ''notifications/ping''),
            (''params'', JObj [(''timestamp'', JStr ''2024-01-11T09:31:00'')])]]"
proof -
  have two: "[0..<Suc (Suc 0)] = [0, Suc 0]"
    by (simp add: upt_rec)
  show ?thesis
    using event_stream_order [where extra = "[]" and k = "Suc (Suc 0)"
        and clock = "\<lambda>n. if n = 0 then ''2024-01-11T09:30:30'' else ''2024-01-11T09:31:00''"]
    by (simp add: two handle_list_tools_def)
qed

section \<open>The tool call on the store\<close>

lemma extends_refl: "extends s s"
  by (simp add: extends_def)

lemma extends_trans: "extends s s1 \<Longrightarrow> extends s1 s2 \<Longrightarrow> extends s s2"
  by (auto simp: extends_def)

lemma extends_deref: "extends s s' \<Longrightarrow> a < fresh s \<Longrightarrow> deref s' a = deref s a"
  by (simp add: extends_def deref_def)

lemma extends_map_deref:
  "extends s s' \<Longrightarrow> list_all (\<lambda>a. a < fresh s) refs \<Longrightarrow>
   map (\<lambda>a. f (deref s' a)) refs = map (\<lambda>a. f (deref s a)) refs"
  by (induction refs) (simp_all add: extends_deref)

lemma extends_below:
  "extends s s' \<Longrightarrow> list_all (\<lambda>a. a < fresh s) refs \<Longrightarrow> list_all (\<lambda>a. a < fresh s') refs"
  by (induction refs) (auto simp: extends_def)

lemma alloc_extends:
  "alloc d s = (a, s') \<Longrightarrow> extends s s' \<and> a = fresh s \<and> fresh s' = Suc a \<and> deref s' a = d"
  by (auto simp: alloc_def extends_def deref_def)

lemma copy_step:
  assumes "alloc d s = (a, s1)"
  shows "extends s (setitem a k v s1) \<and> a = fresh s \<and> fresh (setitem a k v s1) = Suc a \<and>
         deref (setitem a k v s1) a = dict_set d k v"
  using assms by (auto simp: alloc_def setitem_def extends_def deref_def)

lemma copy_tasks_st_spec:
  assumes "list_all (\<lambda>t. t < fresh s) tasks" and "list_all (\<lambda>a. a < fresh s) all_tasks"
    and "copy_tasks_st cat tasks all_tasks s = (refs, s')"
  shows "extends s s' \<and> list_all (\<lambda>a. a < fresh s') refs \<and>
         map (deref s') refs =
           map (deref s) all_tasks @ map (\<lambda>t. dict_set (deref s t) ''category'' (JStr cat)) tasks"
  using assms
proof (induction tasks arbitrary: all_tasks s)
  case Nil
  then show ?case by (simp add: extends_refl)
next
  case (Cons t tasks)
  obtain a s1 where al: "alloc (deref s t) s = (a, s1)"
    by (cases "alloc (deref s t) s")
  define s2 where "s2 = setitem a ''category'' (JStr cat) s1"
  have "extends s s2 \<and> a = fresh s \<and> fresh s2 = Suc a \<and>
      deref s2 a = dict_set (deref s t) ''category'' (JStr cat)"
    unfolding s2_def by (rule copy_step [OF al])
  then have ext: "extends s s2" and a: "a = fresh s" and fr: "fresh s2 = Suc a"
    and da: "deref s2 a = dict_set (deref s t) ''category'' (JStr cat)"
    by blast+
  from Cons.prems(3) al have run: "copy_tasks_st cat tasks (all_tasks @ [a]) s2 = (refs, s')"
    by (simp add: s2_def)
  from Cons.prems(1) have tl: "list_all (\<lambda>t. t < fresh s) tasks" and t: "t < fresh s"
    by simp_all
  have tasks2: "list_all (\<lambda>t. t < fresh s2) tasks"
    using ext tl by (rule extends_below)
  have acc2: "list_all (\<lambda>a. a < fresh s2) (all_tasks @ [a])"
    using extends_below [OF ext Cons.prems(2)] fr by simp
  from Cons.IH [OF tasks2 acc2 run]
  have ext2: "extends s2 s'" and below: "list_all (\<lambda>a. a < fresh s') refs"
    and m: "map (deref s') refs =
      map (deref s2) (all_tasks @ [a]) @
      map (\<lambda>t. dict_set (deref s2 t) ''category'' (JStr cat)) tasks"
    by simp_all
  have old: "map (deref s2) all_tasks = map (deref s) all_tasks"
    using extends_map_deref [OF ext Cons.prems(2), of "\<lambda>d. d"] by simp
  have new: "map (\<lambda>t. dict_set (deref s2 t) ''category'' (JStr cat)) tasks =
      map (\<lambda>t. dict_set (deref s t) ''category'' (JStr cat)) tasks"
    using ext tl by (rule extends_map_deref)
  from ext ext2 have "extends s s'"
    by (rule extends_trans)
  with below m old new da show ?case
    by simp
qed
lemma copy_categories_st_spec:
  assumes "list_all (\<lambda>(cat, tasks). list_all (\<lambda>t. t < fresh s) tasks) items"
    and "list_all (\<lambda>a. a < fresh s) all_tasks"
    and "copy_categories_st items all_tasks s = (refs, s')"
  shows "extends s s' \<and> list_all (\<lambda>a. a < fresh s') refs \<and>
         map (deref s') refs =
           copy_categories (map (\<lambda>(cat, tasks). (cat, map (deref s) tasks)) items)
             (map (deref s) all_tasks)"
  using assms
proof (induction items arbitrary: all_tasks s)
  case Nil
  then show ?case by (simp add: extends_refl)
next
  case (Cons item items)
  obtain cat tasks where item: "item = (cat, tasks)"
    by (cases item)
  obtain all1 s1 where c: "copy_tasks_st cat tasks all_tasks s = (all1, s1)"
    by (cases "copy_tasks_st cat tasks all_tasks s")
  from Cons.prems(1) item have tasks: "list_all (\<lambda>t. t < fresh s) tasks"
    and rest: "list_all (\<lambda>(cat, tasks). list_all (\<lambda>t. t < fresh s) tasks) items"
    by simp_all
  from copy_tasks_st_spec [OF tasks Cons.prems(2) c]
  have ext: "extends s s1" and below: "list_all (\<lambda>a. a < fresh s1) all1"
    and m: "map (deref s1) all1 =
      map (deref s) all_tasks @ map (\<lambda>t. dict_set (deref s t) ''category'' (JStr cat)) tasks"
    by blast+
  have rest1: "list_all (\<lambda>(cat, tasks). list_all (\<lambda>t. t < fresh s1) tasks) items"
    using rest ext by (induction items) (auto simp: extends_below)
  from Cons.prems(3) item c have run: "copy_categories_st items all1 s1 = (refs, s')"
    by simp
  from Cons.IH [OF rest1 below run]
  have ext1: "extends s1 s'" and below': "list_all (\<lambda>a. a < fresh s') refs"
    and m': "map (deref s') refs =
      copy_categories (map (\<lambda>(cat, tasks). (cat, map (deref s1) tasks)) items)
        (map (deref s1) all1)"
    by blast+
  have same: "map (\<lambda>(cat, tasks). (cat, map (deref s1) tasks)) items =
      map (\<lambda>(cat, tasks). (cat, map (deref s) tasks)) items"
    using rest
  proof (induction items)
    case Nil
    show ?case by simp
  next
    case (Cons i rest')
    obtain c ts where i: "i = (c, ts)"
      by (cases i)
    with Cons.prems have "list_all (\<lambda>t. t < fresh s) ts"
      by simp
    from extends_map_deref [OF ext this, of "\<lambda>d. d"] have "map (deref s1) ts = map (deref s) ts"
      by simp
    with Cons i show ?case
      by simp
  qed
  from ext ext1 have "extends s s'"
    by (rule extends_trans)
  with below' m' m same item show ?case
    by (simp add: copy_tasks_eq comp_def)
qed

lemma spread_tasks_st_spec:
  assumes "list_all (\<lambda>t. t < fresh s) tasks"
    and "spread_tasks_st category tasks s = (refs, s')"
  shows "extends s s' \<and>
         map (deref s') refs = map (\<lambda>t. dict_set (deref s t) ''category'' (JStr category)) tasks"
  using assms
proof (induction tasks arbitrary: s refs s')
  case Nil
  then show ?case by (simp add: extends_refl)
next
  case (Cons t tasks)
  obtain a s1 where al: "alloc (dict_set (deref s t) ''category'' (JStr category)) s = (a, s1)"
    by (cases "alloc (dict_set (deref s t) ''category'' (JStr category)) s")
  obtain refs1 s2 where sp: "spread_tasks_st category tasks s1 = (refs1, s2)"
    by (cases "spread_tasks_st category tasks s1")
  from Cons.prems(2) al sp have r: "refs = a # refs1" and s': "s' = s2"
    by simp_all
  from alloc_extends [OF al]
  have ext: "extends s s1" and fr: "fresh s1 = Suc a"
    and da: "deref s1 a = dict_set (deref s t) ''category'' (JStr category)"
    by blast+
  from Cons.prems(1) have tl: "list_all (\<lambda>t. t < fresh s) tasks"
    by simp
  have tl1: "list_all (\<lambda>t. t < fresh s1) tasks"
    using ext tl by (rule extends_below)
  from Cons.IH [OF tl1 sp]
  have ext1: "extends s1 s2"
    and m: "map (deref s2) refs1 =
      map (\<lambda>t. dict_set (deref s1 t) ''category'' (JStr category)) tasks"
    by blast+
  have a2: "deref s2 a = deref s1 a"
    using ext1 by (rule extends_deref) (simp add: fr)
  have new: "map (\<lambda>t. dict_set (deref s1 t) ''category'' (JStr category)) tasks =
      map (\<lambda>t. dict_set (deref s t) ''category'' (JStr category)) tasks"
    using ext tl by (rule extends_map_deref)
  from ext ext1 have "extends s s2"
    by (rule extends_trans)
  with r s' m a2 da new show ?case
    by simp
qed

lemma task_data_lookup:
  "map_of (task_data s) category = map_option (map (deref s)) (map_of (sample_tasks s) category)"
  by (simp add: task_data_def map_of_map)

lemma task_data_keys: "map fst (task_data s) = map fst (sample_tasks s)"
  by (simp add: task_data_def comp_def case_prod_unfold)

lemma table_allocated_lookup:
  "table_allocated s \<Longrightarrow> map_of (sample_tasks s) category = Some tasks \<Longrightarrow>
   list_all (\<lambda>t. t < fresh s) tasks"
  by (auto simp: table_allocated_def list_all_iff dest!: map_of_SomeD)

lemma tasklist_try_st_spec:
  assumes "table_allocated s" and "task_data s = SAMPLE_TASKS"
    and "tasklist_try_st now category s = (r, s')"
  shows "extends s s' \<and> r = tasklist_try now category"
proof (cases "category = ''all''")
  case True
  obtain refs s1 where c: "copy_categories_st (sample_tasks s) [] s = (refs, s1)"
    by (cases "copy_categories_st (sample_tasks s) [] s")
  have "list_all (\<lambda>(cat, tasks). list_all (\<lambda>t. t < fresh s) tasks) (sample_tasks s)"
    using assms(1) by (simp add: table_allocated_def)
  from copy_categories_st_spec [OF this _ c]
  have "extends s s1" and "map (deref s1) refs = copy_categories (task_data s) []"
    by (simp_all add: task_data_def)
  with assms(2,3) True c show ?thesis
    by (simp add: tasklist_try_st_def tasklist_try_def)
next
  case False
  show ?thesis
  proof (cases "map_of (sample_tasks s) category")
    case None
    then have "map_of SAMPLE_TASKS category = None"
      using task_data_lookup [of s category] assms(2) by simp
    moreover have "map fst (sample_tasks s) = map fst SAMPLE_TASKS"
      using task_data_keys [of s] assms(2) by simp
    ultimately show ?thesis
      using assms(3) False None
      by (simp add: tasklist_try_st_def tasklist_try_def extends_refl)
  next
    case (Some tasks)
    then have look: "map_of SAMPLE_TASKS category = Some (map (deref s) tasks)"
      using task_data_lookup [of s category] assms(2) by simp
    obtain refs s1 where sp: "spread_tasks_st category tasks s = (refs, s1)"
      by (cases "spread_tasks_st category tasks s")
    from table_allocated_lookup [OF assms(1) Some] have "list_all (\<lambda>t. t < fresh s) tasks" .
    from spread_tasks_st_spec [OF this sp]
    have "extends s s1"
      and "map (deref s1) refs =
        map (\<lambda>t. dict_set (deref s t) ''category'' (JStr category)) tasks"
      by blast+
    with assms(3) False Some look sp show ?thesis
      by (simp add: tasklist_try_st_def tasklist_try_def comp_def)
  qed
qed

lemma handle_call_tool_st_spec:
  assumes "table_allocated s" and "task_data s = SAMPLE_TASKS"
    and "handle_call_tool_st lower now name arguments s = (r, s')"
  shows "extends s s' \<and> r = handle_call_tool lower now name arguments"
  using assms(3)
  by (auto simp: handle_call_tool_st_def handle_call_tool_def extends_refl
      split: if_splits sum.splits bool.splits prod.splits
      dest!: tasklist_try_st_spec [OF assms(1,2)])

lemma extends_table:
  assumes "extends s s'" and "table_allocated s"
  shows "table_allocated s' \<and> task_data s' = task_data s"
proof -
  have "list_all (\<lambda>(cat, refs). list_all (\<lambda>r. r < fresh s') refs) items \<and>
      map (\<lambda>(cat, refs). (cat, map (deref s') refs)) items =
      map (\<lambda>(cat, refs). (cat, map (deref s) refs)) items"
    if "list_all (\<lambda>(cat, refs). list_all (\<lambda>r. r < fresh s) refs) items" for items
    using that
  proof (induction items)
    case Nil
    show ?case by simp
  next
    case (Cons i rest')
    obtain c ts where i: "i = (c, ts)"
      by (cases i)
    with Cons.prems have ts: "list_all (\<lambda>t. t < fresh s) ts"
      by simp
    from extends_map_deref [OF assms(1) ts, of "\<lambda>d. d"] have "map (deref s') ts = map (deref s) ts"
      by simp
    with Cons i extends_below [OF assms(1) ts] show ?case
      by simp
  qed
  from this [of "sample_tasks s"] assms show ?thesis
    by (simp add: table_allocated_def task_data_def extends_def)
qed

lemma run_calls_spec:
  assumes "table_allocated s" and "task_data s = SAMPLE_TASKS"
    and "run_calls lower calls s = (rs, s')"
  shows "extends s s' \<and> task_data s' = SAMPLE_TASKS \<and>
         rs = map (\<lambda>(now, name, arguments). handle_call_tool lower now name arguments) calls"
  using assms
proof (induction calls arbitrary: s rs s')
  case Nil
  then show ?case by (simp add: extends_refl)
next
  case (Cons call calls)
  obtain now name arguments where call: "call = (now, name, arguments)"
    by (cases call)
  obtain r s1 where h: "handle_call_tool_st lower now name arguments s = (r, s1)"
    by (cases "handle_call_tool_st lower now name arguments s")
  obtain rs1 s2 where run: "run_calls lower calls s1 = (rs1, s2)"
    by (cases "run_calls lower calls s1")
  from handle_call_tool_st_spec [OF Cons.prems(1,2) h]
  have ext: "extends s s1" and r: "r = handle_call_tool lower now name arguments"
    by blast+
  from extends_table [OF ext Cons.prems(1)] Cons.prems(2)
  have t1: "table_allocated s1" and d1: "task_data s1 = SAMPLE_TASKS"
    by simp_all
  from Cons.IH [OF t1 d1 run]
  have ext1: "extends s1 s2" and d2: "task_data s2 = SAMPLE_TASKS"
    and rs1: "rs1 = map (\<lambda>(now, name, arguments). handle_call_tool lower now name arguments) calls"
    by blast+
  from Cons.prems(3) call h run have "rs = r # rs1" and "s' = s2"
    by simp_all
  with extends_trans [OF ext ext1] d2 rs1 r call show ?case
    by simp
qed

lemma initial_table_allocated: "table_allocated initial_store"
  by (simp add: table_allocated_def initial_store_def SAMPLE_TASKS_def alloc_def)

lemma initial_task_data: "task_data initial_store = SAMPLE_TASKS"
  by (simp add: task_data_def initial_store_def SAMPLE_TASKS_def alloc_def deref_def)

lemma initial_fresh: "fresh initial_store = 14"
  by (simp add: initial_store_def SAMPLE_TASKS_def alloc_def)

text \<open>
  Claim C10. Start from the store of the module's task literals and make any tool calls,
  one after the other, with any names and arguments. Afterwards the table
  \<^verbatim>\<open>SAMPLE_TASKS\<close> holds the same references, every object that existed at the start
  has the items it had, and so the task data is \<^verbatim>\<open>SAMPLE_TASKS\<close> as before: the calls
  write to new objects only. Each call returns what \<^verbatim>\<open>handle_call_tool\<close> returns on the
  unchanged data, that is, copies of the tasks with the key \<^verbatim>\<open>category\<close> added. The tool
  catalog is no object of the store: \<^verbatim>\<open>handle_list_tools\<close> builds it from literals.
\<close>

theorem tool_calls_frame:
  "task_data initial_store = SAMPLE_TASKS
   \<and> sample_tasks (snd (run_calls lower calls initial_store)) = sample_tasks initial_store
   \<and> (\<forall>a<fresh initial_store.
         heap (snd (run_calls lower calls initial_store)) a = heap initial_store a)
   \<and> task_data (snd (run_calls lower calls initial_store)) = SAMPLE_TASKS
   \<and> fst (run_calls lower calls initial_store) =
       map (\<lambda>(now, name, arguments). handle_call_tool lower now name arguments) calls"
proof -
  have "run_calls lower calls initial_store =
      (fst (run_calls lower calls initial_store), snd (run_calls lower calls initial_store))"
    by simp
  from run_calls_spec [OF initial_table_allocated initial_task_data this]
  show ?thesis
    by (simp add: extends_def initial_task_data)
qed

theorem tool_calls_frame_witness:
  "sample_tasks (snd (run_calls ascii_lower
       [(''2024-01-11T09:30:00'', JStr ''get_tasklist'', JObj [(''category'', JStr ''all'')]),
        (''2024-01-11T09:31:00'', JStr ''get_tasklist'', JObj [(''category'', JStr ''Work'')])]
       initial_store)) = sample_tasks initial_store
   \<and> heap (snd (run_calls ascii_lower
       [(''2024-01-11T09:30:00'', JStr ''get_tasklist'', JObj [(''category'', JStr ''all'')]),
        (''2024-01-11T09:31:00'', JStr ''get_tasklist'', JObj [(''category'', JStr ''Work'')])]
       initial_store)) 0 = heap initial_store 0
   \<and> task_data (snd (run_calls ascii_lower
       [(''2024-01-11T09:30:00'', JStr ''get_tasklist'', JObj [(''category'', JStr ''all'')]),
        (''2024-01-11T09:31:00'', JStr ''get_tasklist'', JObj [(''category'', JStr ''Work'')])]
       initial_store)) = SAMPLE_TASKS"
  using tool_calls_frame [where lower = ascii_lower and calls =
       "[(''2024-01-11T09:30:00'', JStr ''get_tasklist'', JObj [(''category'', JStr ''all'')]),
        (''2024-01-11T09:31:00'', JStr ''get_tasklist'', JObj [(''category'', JStr ''Work'')])]"]
    initial_fresh
  by simp

end
